theory Spec2Isabelle
  imports Complex_Main "HOL-Library.AList" "HOL-Library.Word"
begin

section \<open>Particle tiles\<close>

text \<open>
  The embedding follows \<^verbatim>\<open>Source/Particles/ParticleBoundaryBuffer.cpp\<close> in the
  three-dimensional build (\<^verbatim>\<open>WARPX_DIM_3D\<close>) with \<^verbatim>\<open>AMREX_USE_EB\<close> defined, the
  configuration in which both loops of \<open>gatherParticles\<close> are compiled. \<^verbatim>\<open>amrex::Real\<close> and
  \<^verbatim>\<open>amrex::ParticleReal\<close> are the type \<open>real\<close>: the functions below only copy and
  compare these numbers, apart from the crossing-point search, whose numeric routines are
  parameters.

  The 64-bit word \<^verbatim>\<open>m_idcpu\<close> packs a particle's signed id and its cpu number. The
  packing belongs to the particle library; the model keeps the two numbers.
\<close>

record idcpu =
  idcpu_id :: int
  idcpu_cpu :: int

definition AMREX_SPACEDIM :: nat where
  "AMREX_SPACEDIM = 3"

text \<open>
  Modelled from the spec: the enumeration \<^verbatim>\<open>PIdx\<close> of the fixed real attributes is
  declared in a header outside \<^verbatim>\<open>src/\<close>. The spec lists the position components,
  the weight and the momentum; in the structure-of-arrays layout that \<^verbatim>\<open>PIter\<close>
  (\<^verbatim>\<open>ParConstIterSoA<PIdx::nattribs, 0>\<close>) names, the positions come first.
\<close>

definition PIdx_x :: nat where "PIdx_x = 0"
definition PIdx_y :: nat where "PIdx_y = 1"
definition PIdx_z :: nat where "PIdx_z = 2"
definition PIdx_w :: nat where "PIdx_w = 3"
definition PIdx_ux :: nat where "PIdx_ux = 4"
definition PIdx_uy :: nat where "PIdx_uy = 5"
definition PIdx_uz :: nat where "PIdx_uz = 6"
definition PIdx_nattribs :: nat where "PIdx_nattribs = 7"

text \<open>\<^verbatim>\<open>SrcData::NAR\<close>, the number of compile-time real components of a tile.\<close>

definition NAR :: nat where
  "NAR = PIdx_nattribs"

text \<open>
  A particle tile in structure-of-arrays layout: one array per component, each holding one
  value per particle. \<open>m_rdata\<close> has \<open>NAR\<close> arrays, \<open>m_runtime_rdata\<close> and
  \<open>m_runtime_idata\<close> one array per runtime component; the fields
  \<^verbatim>\<open>m_num_runtime_real\<close> and \<^verbatim>\<open>m_num_runtime_int\<close> of the tile data are the numbers
  of these arrays.
\<close>

record ParticleTile =
  m_idcpu :: "idcpu list"
  m_rdata :: "real list list"
  m_runtime_rdata :: "real list list"
  m_runtime_idata :: "int list list"

definition numParticles :: "ParticleTile \<Rightarrow> nat" where
  "numParticles t = length (m_idcpu t)"

definition m_num_runtime_real :: "ParticleTile \<Rightarrow> nat" where
  "m_num_runtime_real t = length (m_runtime_rdata t)"

definition m_num_runtime_int :: "ParticleTile \<Rightarrow> nat" where
  "m_num_runtime_int t = length (m_runtime_idata t)"

text \<open>\<^verbatim>\<open>ptile.NumRuntimeIntComps()\<close> of a tile.\<close>

definition NumRuntimeIntComps_tile :: "ParticleTile \<Rightarrow> nat" where
  "NumRuntimeIntComps_tile t = length (m_runtime_idata t)"

text \<open>
  Modelled from the spec: \<^verbatim>\<open>ParticleTile::define\<close> and \<^verbatim>\<open>ParticleTile::resize\<close> are
  library code outside \<^verbatim>\<open>src/\<close>. A tile is defined empty with the runtime components
  of its container; \<open>resize\<close> sets the length of every array (the spec's "single
  destination-buffer resize to exactly accommodate the new matches"). The slots a resize
  adds are uninitialised in the source; the model fills them with zeros.
\<close>

definition define_tile :: "nat \<Rightarrow> nat \<Rightarrow> ParticleTile" where
  "define_tile nr ni =
     \<lparr>m_idcpu = [], m_rdata = replicate NAR [],
      m_runtime_rdata = replicate nr [], m_runtime_idata = replicate ni []\<rparr>"

definition resize_array :: "nat \<Rightarrow> 'a \<Rightarrow> 'a list \<Rightarrow> 'a list" where
  "resize_array n d xs = take n xs @ replicate (n - length xs) d"

definition resize :: "ParticleTile \<Rightarrow> nat \<Rightarrow> ParticleTile" where
  "resize t n =
     \<lparr>m_idcpu = resize_array n \<lparr>idcpu_id = 0, idcpu_cpu = 0\<rparr> (m_idcpu t),
      m_rdata = map (resize_array n 0) (m_rdata t),
      m_runtime_rdata = map (resize_array n 0) (m_runtime_rdata t),
      m_runtime_idata = map (resize_array n 0) (m_runtime_idata t)\<rparr>"

text \<open>
  Modelled from the spec: \<^verbatim>\<open>getSuperParticle\<close> is library code outside \<^verbatim>\<open>src/\<close>. It
  returns particle \<open>ip\<close> of a tile as one value; in the structure-of-arrays layout its
  position components are the first \<open>AMREX_SPACEDIM\<close> real components.
\<close>

record SuperParticle =
  sp_idcpu :: idcpu
  sp_rdata :: "real list"

definition getSuperParticle :: "ParticleTile \<Rightarrow> nat \<Rightarrow> SuperParticle" where
  "getSuperParticle t ip =
     \<lparr>sp_idcpu = m_idcpu t ! ip, sp_rdata = map (\<lambda>c. c ! ip) (m_rdata t)\<rparr>"

definition pos :: "SuperParticle \<Rightarrow> nat \<Rightarrow> real" where
  "pos p d = sp_rdata p ! d"

section \<open>The functors\<close>

subsection \<open>IsOutsideDomainBoundary\<close>

record IsOutsideDomainBoundary =
  m_plo :: "real list"
  m_phi :: "real list"
  m_idim :: nat
  m_iside :: int

definition IsOutsideDomainBoundary_call ::
  "IsOutsideDomainBoundary \<Rightarrow> ParticleTile \<Rightarrow> nat \<Rightarrow> int" where
  "IsOutsideDomainBoundary_call f src ip =
     (let p = getSuperParticle src ip in
      if m_iside f = 0 then
        (if pos p (m_idim f) < IsOutsideDomainBoundary.m_plo f ! m_idim f then 1 else 0)
      else
        (if pos p (m_idim f) \<ge> m_phi f ! m_idim f then 1 else 0))"

subsection \<open>CopyAndTimestamp\<close>

text \<open>
  The three copy loops of both transforms have one shape: for \<open>j\<close> from \<open>0\<close> below \<open>n\<close>,
  \<^verbatim>\<open>dst.a[j][dst_i] = src.a[j][src_i]\<close>.
\<close>

definition copy_comps ::
  "nat \<Rightarrow> 'a list list \<Rightarrow> 'a list list \<Rightarrow> nat \<Rightarrow> nat \<Rightarrow> 'a list list" where
  "copy_comps n dst_a src_a src_i dst_i =
     fold (\<lambda>j a. a[j := (a ! j)[dst_i := src_a ! j ! src_i]]) [0..<n] dst_a"

text \<open>
  \<^verbatim>\<open>dst.m_runtime_idata[m_index][dst_i] = m_step\<close>. The index is a C++ \<open>int\<close>; a write
  outside the arrays is undefined behaviour in the source, and the model leaves the tile
  as it is there.
\<close>

definition write_timestamp :: "int \<Rightarrow> int \<Rightarrow> nat \<Rightarrow> int list list \<Rightarrow> int list list" where
  "write_timestamp index step dst_i a =
     (if 0 \<le> index then a[nat index := (a ! nat index)[dst_i := step]] else a)"

record CopyAndTimestamp =
  m_index :: int
  m_step :: int

definition CopyAndTimestamp_call ::
  "CopyAndTimestamp \<Rightarrow> ParticleTile \<Rightarrow> ParticleTile \<Rightarrow> nat \<Rightarrow> nat \<Rightarrow> ParticleTile" where
  "CopyAndTimestamp_call f dst src src_i dst_i =
     (let dst = dst\<lparr>m_idcpu := (m_idcpu dst)[dst_i := m_idcpu src ! src_i]\<rparr>;
          dst = dst\<lparr>m_rdata := copy_comps NAR (m_rdata dst) (m_rdata src) src_i dst_i\<rparr>;
          dst = dst\<lparr>m_runtime_rdata :=
                  copy_comps (m_num_runtime_real src) (m_runtime_rdata dst)
                    (m_runtime_rdata src) src_i dst_i\<rparr>;
          dst = dst\<lparr>m_runtime_idata :=
                  copy_comps (m_num_runtime_int src) (m_runtime_idata dst)
                    (m_runtime_idata src) src_i dst_i\<rparr>
      in dst\<lparr>m_runtime_idata :=
               write_timestamp (CopyAndTimestamp.m_index f) (CopyAndTimestamp.m_step f) dst_i
                 (m_runtime_idata dst)\<rparr>)"

subsection \<open>FindBoundaryIntersection\<close>

text \<open>
  The numeric routines that the embedded-boundary code calls are not under \<^verbatim>\<open>src/\<close>:
  \<^verbatim>\<open>amrex::bisect\<close>, \<^verbatim>\<open>UpdatePosition\<close>, \<^verbatim>\<open>compute_weights_nodal\<close>,
  \<^verbatim>\<open>interp_field_nodal\<close> and \<^verbatim>\<open>doGatherScalarFieldNodal\<close>. They are parameters of the
  model, collected in one record; \<^verbatim>\<open>Array4\<close> is a function of the three cell indices.
\<close>

type_synonym Array4 = "int \<times> int \<times> int \<Rightarrow> real"

record Numerics =
  bisect :: "real \<Rightarrow> real \<Rightarrow> (real \<Rightarrow> real) \<Rightarrow> real"
  UpdatePosition ::
    "real \<Rightarrow> real \<Rightarrow> real \<Rightarrow> real \<Rightarrow> real \<Rightarrow> real \<Rightarrow> real \<Rightarrow> real \<times> real \<times> real"
  compute_weights_nodal ::
    "real \<Rightarrow> real \<Rightarrow> real \<Rightarrow> real list \<Rightarrow> real list \<Rightarrow> (int \<times> int \<times> int) \<times> real list list"
  interp_field_nodal :: "int \<Rightarrow> int \<Rightarrow> int \<Rightarrow> real list list \<Rightarrow> Array4 \<Rightarrow> real"
  doGatherScalarFieldNodal ::
    "real \<Rightarrow> real \<Rightarrow> real \<Rightarrow> Array4 \<Rightarrow> real list \<Rightarrow> real list \<Rightarrow> real"

text \<open>
  \<^verbatim>\<open>FindBoundaryIntersection\<close> addresses particle \<open>i\<close> of a tile through the member
  \<^verbatim>\<open>m_aos\<close>, the particle's array-of-structs part: its position and its id/cpu word. In
  the layout of \<^verbatim>\<open>PIter\<close> a tile holds the two in the position columns of \<open>m_rdata\<close>
  and in \<open>m_idcpu\<close>; \<open>m_aos\<close> reads them there, \<open>m_aos_assign\<close> and \<open>m_aos_pos_assign\<close>
  write them there.
\<close>

record Particle =
  p_pos :: "real list"
  p_idcpu :: idcpu

definition m_aos :: "ParticleTile \<Rightarrow> nat \<Rightarrow> Particle" where
  "m_aos t i =
     \<lparr>p_pos = map (\<lambda>d. m_rdata t ! d ! i) [0..<AMREX_SPACEDIM], p_idcpu = m_idcpu t ! i\<rparr>"

definition m_aos_pos_assign :: "ParticleTile \<Rightarrow> nat \<Rightarrow> nat \<Rightarrow> real \<Rightarrow> ParticleTile" where
  "m_aos_pos_assign t i d v = t\<lparr>m_rdata := (m_rdata t)[d := (m_rdata t ! d)[i := v]]\<rparr>"

definition m_aos_assign :: "ParticleTile \<Rightarrow> nat \<Rightarrow> Particle \<Rightarrow> ParticleTile" where
  "m_aos_assign t i p =
     fold (\<lambda>d t. m_aos_pos_assign t i d (p_pos p ! d)) [0..<AMREX_SPACEDIM]
       (t\<lparr>m_idcpu := (m_idcpu t)[i := p_idcpu p]\<rparr>)"

text \<open>\<^verbatim>\<open>get_particle_position\<close> in three dimensions: the three position components.\<close>

definition get_particle_position :: "SuperParticle \<Rightarrow> real \<times> real \<times> real" where
  "get_particle_position p = (pos p 0, pos p 1, pos p 2)"

record FindBoundaryIntersection =
  m_index :: int
  m_step :: int
  m_dt :: real
  m_phiarr :: Array4
  m_dxi :: "real list"
  m_plo :: "real list"

text \<open>
  Lines 86 to 108: the bisection over the fraction of the step, and the position the
  particle had that fraction of the step before its end.
\<close>

definition boundary_intersection ::
  "Numerics \<Rightarrow> FindBoundaryIntersection \<Rightarrow> real \<times> real \<times> real \<Rightarrow> real \<times> real \<times> real
   \<Rightarrow> real \<times> real \<times> real" where
  "boundary_intersection lib f xyz u =
     (case xyz of (xp, yp, zp) \<Rightarrow> case u of (ux, uy, uz) \<Rightarrow>
      let dt = m_dt f; phiarr = m_phiarr f; dxi = m_dxi f;
          plo = FindBoundaryIntersection.m_plo f;
          dt_fraction = bisect lib 0 1
            (\<lambda>dt_frac.
               case UpdatePosition lib xp yp zp ux uy uz (- dt_frac * dt) of
                 (x_temp, y_temp, z_temp) \<Rightarrow>
               case compute_weights_nodal lib x_temp y_temp z_temp plo dxi of
                 ((i, j, k), W) \<Rightarrow>
               interp_field_nodal lib i j k W phiarr)
      in UpdatePosition lib xp yp zp ux uy uz (- dt_fraction * m_dt f))"

definition FindBoundaryIntersection_call ::
  "Numerics \<Rightarrow> FindBoundaryIntersection \<Rightarrow> ParticleTile \<Rightarrow> ParticleTile \<Rightarrow> nat \<Rightarrow> nat
   \<Rightarrow> ParticleTile" where
  "FindBoundaryIntersection_call lib f dst src src_i dst_i =
     (let dst = m_aos_assign dst dst_i (m_aos src src_i);
          dst = dst\<lparr>m_rdata := copy_comps NAR (m_rdata dst) (m_rdata src) src_i dst_i\<rparr>;
          dst = dst\<lparr>m_runtime_rdata :=
                  copy_comps (m_num_runtime_real src) (m_runtime_rdata dst)
                    (m_runtime_rdata src) src_i dst_i\<rparr>;
          dst = dst\<lparr>m_runtime_idata :=
                  copy_comps (m_num_runtime_int src) (m_runtime_idata dst)
                    (m_runtime_idata src) src_i dst_i\<rparr>;
          dst = dst\<lparr>m_runtime_idata :=
                  write_timestamp (FindBoundaryIntersection.m_index f)
                    (FindBoundaryIntersection.m_step f) dst_i (m_runtime_idata dst)\<rparr>;
          p = getSuperParticle dst dst_i;
          xyz = get_particle_position p;
          ux = m_rdata dst ! PIdx_ux ! dst_i;
          uy = m_rdata dst ! PIdx_uy ! dst_i;
          uz = m_rdata dst ! PIdx_uz ! dst_i
      in case boundary_intersection lib f xyz (ux, uy, uz) of
           (x_temp, y_temp, z_temp) \<Rightarrow>
             m_aos_pos_assign
               (m_aos_pos_assign (m_aos_pos_assign dst dst_i 0 x_temp) dst_i 1 y_temp)
               dst_i 2 z_temp)"

section \<open>Stream compaction\<close>

text \<open>
  Modelled from the spec: \<^verbatim>\<open>amrex::ReduceOps\<close> and \<^verbatim>\<open>amrex::filterAndTransformParticles\<close>
  are library code outside \<^verbatim>\<open>src/\<close>. The reduction sums its function over the
  particle indices. The compaction is the spec's "stream-compaction that copies only
  matching particles into the newly reserved destination range": it visits the source
  indices from \<open>src_start\<close> on, and calls the transform for every index that the predicate
  accepts, with consecutive destination indices from \<open>dst_start\<close> on. The source tile is
  passed as a constant; only the destination tile is returned.
\<close>

definition reduce_sum :: "nat \<Rightarrow> (nat \<Rightarrow> nat) \<Rightarrow> nat" where
  "reduce_sum np g = sum_list (map g [0..<np])"

definition filterAndTransformParticles ::
  "ParticleTile \<Rightarrow> ParticleTile \<Rightarrow> (ParticleTile \<Rightarrow> nat \<Rightarrow> int)
   \<Rightarrow> (ParticleTile \<Rightarrow> ParticleTile \<Rightarrow> nat \<Rightarrow> nat \<Rightarrow> ParticleTile) \<Rightarrow> nat \<Rightarrow> nat
   \<Rightarrow> ParticleTile" where
  "filterAndTransformParticles dst src p f src_start dst_start =
     fst (fold (\<lambda>i (dst, offset).
                  if p src (src_start + i) \<noteq> 0
                  then (f dst src (src_start + i) (dst_start + offset), offset + 1)
                  else (dst, offset))
            [0..<numParticles src] (dst, 0))"

text \<open>
  Lines 344 to 374 and 412 to 453, the work on one pair of tiles, which the two loops of
  \<open>gatherParticles\<close> share word for word but for the predicate and the transform: count the
  matches, resize the buffer tile, compact.
\<close>

definition gather_tile ::
  "(ParticleTile \<Rightarrow> nat \<Rightarrow> int)
   \<Rightarrow> (int \<Rightarrow> ParticleTile \<Rightarrow> ParticleTile \<Rightarrow> nat \<Rightarrow> nat \<Rightarrow> ParticleTile)
   \<Rightarrow> ParticleTile \<Rightarrow> ParticleTile \<Rightarrow> ParticleTile" where
  "gather_tile predicate transform ptile_buffer ptile =
     (let np = numParticles ptile;
          count = reduce_sum np (\<lambda>ip. if predicate ptile ip \<noteq> 0 then 1 else 0);
          dst_index = numParticles ptile_buffer;
          ptile_buffer = resize ptile_buffer (dst_index + count);
          timestamp_index = int (NumRuntimeIntComps_tile ptile_buffer) - 1
      in filterAndTransformParticles ptile_buffer ptile predicate
           (transform timestamp_index) 0 dst_index)"

section \<open>Particle containers\<close>

text \<open>
  Modelled from the spec: the particle containers (\<^verbatim>\<open>WarpXParticleContainer\<close>,
  \<^verbatim>\<open>PinnedMemoryParticleContainer\<close>) are library classes outside \<^verbatim>\<open>src/\<close>; the spec
  describes them as "a per-species, per-refinement-level, tiled collection of particles
  with fixed attributes plus dynamically added runtime attributes". A container has a
  number of levels, its numbers of runtime components, and its tiles, keyed by the level
  and the pair of grid index and local tile index. \<open>ParIter pc lev\<close> lists the pairs that
  the iterator \<^verbatim>\<open>PIter(pc, lev)\<close> visits on this rank. The model has one rank, and no
  communication.
\<close>

record ParticleContainer =
  numLevels :: nat
  NumRuntimeRealComps :: nat
  NumRuntimeIntComps :: nat
  m_particles :: "((nat \<times> int \<times> int) \<times> ParticleTile) list"
  ParIter :: "nat \<Rightarrow> (int \<times> int) list"

type_synonym MultiParticleContainer = "ParticleContainer list"

definition GetParticles :: "ParticleContainer \<Rightarrow> nat \<Rightarrow> (int \<times> int) \<rightharpoonup> ParticleTile" where
  "GetParticles pc lev = (\<lambda>index. map_of (m_particles pc) (lev, index))"

text \<open>
  Modelled from the spec: "ability to create a buffer-alike container" and "ability to add
  a named runtime integer attribute to a container". \<open>make_alike\<close> gives a container with
  the levels and the runtime components of \<open>pc\<close> and no particles; \<open>AddIntComp\<close> adds one
  runtime integer component, in every tile.
\<close>

definition make_alike :: "ParticleContainer \<Rightarrow> ParticleContainer" where
  "make_alike pc = pc\<lparr>m_particles := [], ParIter := (\<lambda>lev. [])\<rparr>"

definition AddIntComp :: "ParticleContainer \<Rightarrow> ParticleContainer" where
  "AddIntComp c =
     c\<lparr>NumRuntimeIntComps := NumRuntimeIntComps c + 1,
       m_particles :=
         map (\<lambda>(key, t).
                (key, t\<lparr>m_runtime_idata := m_runtime_idata t @ [replicate (numParticles t) 0]\<rparr>))
           (m_particles c)\<rparr>"

text \<open>
  \<^verbatim>\<open>DefineAndReturnParticleTile\<close> returns the tile at a key, defining an empty one with
  the container's runtime components where there is none. The C++ function returns a
  reference into the container; the model returns the container and the tile, and the
  caller writes the tile back.
\<close>

definition DefineAndReturnParticleTile ::
  "ParticleContainer \<Rightarrow> nat \<Rightarrow> int \<Rightarrow> int \<Rightarrow> ParticleContainer \<times> ParticleTile" where
  "DefineAndReturnParticleTile c lev grid tile =
     (case map_of (m_particles c) (lev, grid, tile) of
        Some t \<Rightarrow> (c, t)
      | None \<Rightarrow>
          (let t = define_tile (NumRuntimeRealComps c) (NumRuntimeIntComps c)
           in (c\<lparr>m_particles := AList.update (lev, grid, tile) t (m_particles c)\<rparr>, t)))"

text \<open>
  \<^verbatim>\<open>TotalNumberOfParticles(only_valid = false, local)\<close> counts every particle of every
  tile; with one rank the local and the global count are the same. The container's own
  \<^verbatim>\<open>clearParticles\<close> removes every particle and leaves the container defined.
\<close>

definition TotalNumberOfParticles :: "ParticleContainer \<Rightarrow> bool \<Rightarrow> bool \<Rightarrow> nat" where
  "TotalNumberOfParticles c only_valid local =
     sum_list (map (\<lambda>(key, t).
        if only_valid then length (filter (\<lambda>w. 0 \<le> idcpu_id w) (m_idcpu t))
        else numParticles t) (m_particles c))"

definition clearParticles_container :: "ParticleContainer \<Rightarrow> ParticleContainer" where
  "clearParticles_container c = c\<lparr>m_particles := []\<rparr>"

text \<open>
  Modelled from the spec: \<^verbatim>\<open>Redistribute(lev_min, lev_max, nGrow, local, remove_negative)\<close>
  is library code outside \<^verbatim>\<open>src/\<close>. The spec describes it as reorganising "each defined
  buffer's internal parallel layout, permanently discarding any buffered particle whose id
  is negative"; the last argument of the call switches the discarding on or off. With one
  rank there is no layout to reorganise, and a tile keeps the particles it is left with.
\<close>

definition remove_negative_ids :: "ParticleTile \<Rightarrow> ParticleTile" where
  "remove_negative_ids t =
     (let keep = filter (\<lambda>i. 0 \<le> idcpu_id (m_idcpu t ! i)) [0..<numParticles t]
      in \<lparr>m_idcpu = map (\<lambda>i. m_idcpu t ! i) keep,
          m_rdata = map (\<lambda>c. map (\<lambda>i. c ! i) keep) (m_rdata t),
          m_runtime_rdata = map (\<lambda>c. map (\<lambda>i. c ! i) keep) (m_runtime_rdata t),
          m_runtime_idata = map (\<lambda>c. map (\<lambda>i. c ! i) keep) (m_runtime_idata t)\<rparr>)"

definition Redistribute ::
  "ParticleContainer \<Rightarrow> int \<Rightarrow> int \<Rightarrow> int \<Rightarrow> int \<Rightarrow> bool \<Rightarrow> ParticleContainer" where
  "Redistribute c lev_min lev_max nGrow local remove_negative =
     (if remove_negative
      then c\<lparr>m_particles := map (\<lambda>(key, t). (key, remove_negative_ids t)) (m_particles c)\<rparr>
      else c)"

section \<open>The boundary buffer manager\<close>

text \<open>
  What the manager reads from the simulation: the geometry of each level, the step index
  and the step size of each level, and the index of a species name
  (\<^verbatim>\<open>GetPartContainer().getSpeciesID\<close>). These are declared outside \<^verbatim>\<open>src/\<close> and are
  parameters of the model.
\<close>

record Geometry =
  ProbLoArray :: "real list"
  ProbHiArray :: "real list"
  isPeriodic :: "nat \<Rightarrow> bool"
  InvCellSizeArray :: "real list"

record WarpX =
  Geom :: "nat \<Rightarrow> Geometry"
  getistep :: "nat \<Rightarrow> int"
  getdt :: "nat \<Rightarrow> real"
  getSpeciesID :: "string \<Rightarrow> nat"

text \<open>
  A slot of \<open>m_particle_containers\<close> holds \<open>None\<close> for a container that is not defined
  (\<^verbatim>\<open>isDefined()\<close> false) and \<open>Some c\<close> for a defined one.
\<close>

record ParticleBoundaryBuffer =
  m_particle_containers :: "ParticleContainer option list list"
  m_do_boundary_buffer :: "int list list"
  m_do_any_boundary :: "int list"
  m_boundary_names :: "string list"
  m_species_names :: "string list"

definition isDefined :: "ParticleContainer option \<Rightarrow> bool" where
  "isDefined c = (c \<noteq> None)"

text \<open>
  \<open>getSpeciesNames\<close> (lines 275 to 285) returns the member \<open>m_species_names\<close>. The first
  call in the process reads the array \<^verbatim>\<open>particles.species_names\<close> of the input into the
  member before; the flag that records the read is a function-local \<^verbatim>\<open>static\<close>, one for
  all managers of the process, so a call on any manager after the first call returns the
  member as it stands. The model passes the flag in and returns the member with the flag,
  which is set after every call. \<open>species_names\<close> is the array of the input and \<open>names\<close> the
  member of the manager the function is called on.
\<close>

definition getSpeciesNames :: "bool \<Rightarrow> string list \<Rightarrow> string list \<Rightarrow> string list \<times> bool" where
  "getSpeciesNames initialized species_names names =
     (if \<not> initialized then (species_names, True) else (names, True))"

text \<open>
  Modelled from the spec: \<open>numBoundaries\<close> and \<open>numSpecies\<close> are declared in the header,
  outside \<^verbatim>\<open>src/\<close>; "the number of boundaries (derived from spatial dimensionality, +1 if
  embedded boundaries are enabled)" and the length of the list of species names. The
  constructor calls \<open>numSpecies\<close> before anything else, so on a constructed manager the flag
  of \<open>getSpeciesNames\<close> is set and the list of species names is the member.
\<close>

definition numBoundaries :: nat where
  "numBoundaries = AMREX_SPACEDIM * 2 + 1"

definition numSpecies :: "ParticleBoundaryBuffer \<Rightarrow> nat" where
  "numSpecies pbb = length (m_species_names pbb)"

text \<open>
  The constructor. \<open>initialized\<close> is the flag of \<open>getSpeciesNames\<close> when the constructor
  starts: false for the first manager of the process, true for every later one, whose
  member \<open>m_species_names\<close> stays empty, so that it has no species. \<open>species_names\<close> is the
  array \<^verbatim>\<open>particles.species_names\<close> of the input and \<open>query species key\<close> the integer the
  input gives for \<open>key\<close> under the prefix of the species, if any; a key that is absent
  leaves the flag of the boundary at 0. The constructor returns the manager and the flag
  of \<open>getSpeciesNames\<close>.
\<close>

definition boundary_names :: "string list" where
  "boundary_names = [''xlo'', ''xhi'', ''ylo'', ''yhi'', ''zlo'', ''zhi'', ''eb'']"

definition ParticleBoundaryBuffer_init ::
  "bool \<Rightarrow> string list \<Rightarrow> (string \<Rightarrow> string \<Rightarrow> int option)
   \<Rightarrow> ParticleBoundaryBuffer \<times> bool" where
  "ParticleBoundaryBuffer_init initialized species_names query =
     (case getSpeciesNames initialized species_names [] of
        (names, initialized) \<Rightarrow>
          let do_boundary_buffer =
                map (\<lambda>i. map (\<lambda>species.
                       case query species (''save_particles_at_'' @ boundary_names ! i) of
                         Some v \<Rightarrow> v | None \<Rightarrow> 0) names)
                  [0..<numBoundaries]
          in (\<lparr>m_particle_containers =
                 replicate numBoundaries (replicate (length names) None),
               m_do_boundary_buffer = do_boundary_buffer,
               m_do_any_boundary =
                 map (\<lambda>row. if list_ex (\<lambda>v. v \<noteq> 0) row then 1 else 0) do_boundary_buffer,
               m_boundary_names = boundary_names,
               m_species_names = names\<rparr>, initialized))"

subsection \<open>gatherParticles\<close>

text \<open>
  The body of the loop over \<open>pti\<close> (lines 338 to 374 and 404 to 453): skip an index with
  no tile in the source, define the buffer tile, skip an empty source tile, else gather.
\<close>

definition gather_pti ::
  "(ParticleTile \<Rightarrow> nat \<Rightarrow> int)
   \<Rightarrow> (int \<Rightarrow> ParticleTile \<Rightarrow> ParticleTile \<Rightarrow> nat \<Rightarrow> nat \<Rightarrow> ParticleTile)
   \<Rightarrow> ParticleContainer \<Rightarrow> nat \<Rightarrow> int \<times> int \<Rightarrow> ParticleContainer \<Rightarrow> ParticleContainer" where
  "gather_pti predicate transform pc lev index species_buffer =
     (let plevel = GetParticles pc lev in
      case plevel index of
        None \<Rightarrow> species_buffer
      | Some ptile \<Rightarrow>
          (case DefineAndReturnParticleTile species_buffer lev (fst index) (snd index) of
             (species_buffer, ptile_buffer) \<Rightarrow>
               let np = numParticles ptile in
               if np = 0 then species_buffer
               else species_buffer\<lparr>m_particles :=
                      AList.update (lev, index)
                        (gather_tile predicate transform ptile_buffer ptile)
                        (m_particles species_buffer)\<rparr>))"

text \<open>
  Lines 323 to 376 and 388 to 455, the work on one species at one boundary: define the
  buffer if it is not defined, then visit every tile of every level. The predicate and the
  transform may depend on the level and the tile (the embedded boundary's do).
\<close>

definition gather_species ::
  "(nat \<Rightarrow> int \<times> int \<Rightarrow> ParticleTile \<Rightarrow> nat \<Rightarrow> int)
   \<Rightarrow> (nat \<Rightarrow> int \<times> int \<Rightarrow> int \<Rightarrow> ParticleTile \<Rightarrow> ParticleTile \<Rightarrow> nat \<Rightarrow> nat \<Rightarrow> ParticleTile)
   \<Rightarrow> ParticleContainer \<Rightarrow> ParticleContainer option \<Rightarrow> ParticleContainer option" where
  "gather_species predicate transform pc buffer_i =
     (let species_buffer =
            (case buffer_i of
               None \<Rightarrow> AddIntComp (make_alike pc)
             | Some c \<Rightarrow> c)
      in Some (fold (\<lambda>lev species_buffer.
                       fold (\<lambda>index. gather_pti (predicate lev index) (transform lev index)
                                        pc lev index)
                         (ParIter pc lev) species_buffer)
                 [0..<numLevels pc] species_buffer))"

text \<open>Lines 319 to 377: one side of one dimension.\<close>

definition gather_face ::
  "WarpX \<Rightarrow> MultiParticleContainer \<Rightarrow> nat \<Rightarrow> nat \<Rightarrow> ParticleBoundaryBuffer
   \<Rightarrow> ParticleBoundaryBuffer" where
  "gather_face warpx mypc idim iside pbb =
     (let geom = Geom warpx 0;
          plo = ProbLoArray geom;
          phi = ProbHiArray geom;
          buffer = m_particle_containers pbb ! (2 * idim + iside);
          buffer =
            fold (\<lambda>i buffer.
                    if m_do_boundary_buffer pbb ! (2 * idim + iside) ! i = 0 then buffer
                    else
                      let pc = mypc ! i;
                          predicate = \<lparr>IsOutsideDomainBoundary.m_plo = plo, m_phi = phi,
                                       m_idim = idim, m_iside = int iside\<rparr>;
                          timestep = getistep warpx 0
                      in buffer[i :=
                           gather_species
                             (\<lambda>lev index. IsOutsideDomainBoundary_call predicate)
                             (\<lambda>lev index timestamp_index.
                                CopyAndTimestamp_call
                                  \<lparr>CopyAndTimestamp.m_index = timestamp_index,
                                   CopyAndTimestamp.m_step = timestep\<rparr>)
                             pc (buffer ! i)])
              [0..<numSpecies pbb] buffer
      in pbb\<lparr>m_particle_containers :=
               (m_particle_containers pbb)[2 * idim + iside := buffer]\<rparr>)"

text \<open>
  Lines 384 to 456, the embedded boundary. \<^verbatim>\<open>GetParticlePosition\<close> reads the position of
  a particle of the tile of \<open>pti\<close>, which is the tile the predicate is called on; the
  signed distance field \<open>distance_to_eb\<close> gives one array per level and tile.
\<close>

definition GetParticlePosition :: "ParticleTile \<Rightarrow> nat \<Rightarrow> real \<times> real \<times> real" where
  "GetParticlePosition t ip =
     (m_rdata t ! PIdx_x ! ip, m_rdata t ! PIdx_y ! ip, m_rdata t ! PIdx_z ! ip)"

definition eb_predicate ::
  "Numerics \<Rightarrow> Array4 \<Rightarrow> real list \<Rightarrow> real list \<Rightarrow> ParticleTile \<Rightarrow> nat \<Rightarrow> int" where
  "eb_predicate lib phiarr dxi plo src ip =
     (case GetParticlePosition src ip of
        (xp, yp, zp) \<Rightarrow>
          let phi_value = doGatherScalarFieldNodal lib xp yp zp phiarr dxi plo
          in if phi_value < 0 then 1 else 0)"

definition gather_eb ::
  "WarpX \<Rightarrow> Numerics \<Rightarrow> MultiParticleContainer \<Rightarrow> (nat \<Rightarrow> int \<times> int \<Rightarrow> Array4)
   \<Rightarrow> ParticleBoundaryBuffer \<Rightarrow> ParticleBoundaryBuffer" where
  "gather_eb warpx lib mypc distance_to_eb pbb =
     (let plo = ProbLoArray (Geom warpx 0);
          last = length (m_particle_containers pbb) - 1;
          buffer = m_particle_containers pbb ! last;
          buffer =
            fold (\<lambda>i buffer.
                    if m_do_boundary_buffer pbb ! (AMREX_SPACEDIM * 2) ! i = 0 then buffer
                    else
                      let pc = mypc ! i
                      in buffer[i :=
                           gather_species
                             (\<lambda>lev index.
                                eb_predicate lib (distance_to_eb lev index)
                                  (InvCellSizeArray (Geom warpx lev)) plo)
                             (\<lambda>lev index timestamp_index.
                                FindBoundaryIntersection_call lib
                                  \<lparr>FindBoundaryIntersection.m_index = timestamp_index,
                                   FindBoundaryIntersection.m_step = getistep warpx 0,
                                   m_dt = getdt warpx lev,
                                   m_phiarr = distance_to_eb lev index,
                                   m_dxi = InvCellSizeArray (Geom warpx lev),
                                   FindBoundaryIntersection.m_plo = plo\<rparr>)
                             pc (buffer ! i)])
              [0..<numSpecies pbb] buffer
      in pbb\<lparr>m_particle_containers := (m_particle_containers pbb)[last := buffer]\<rparr>)"

text \<open>
  \<open>gatherParticles\<close> takes the live particles \<open>mypc\<close> by reference and reads them through
  constant references only; the model returns them beside the manager.
\<close>

definition gatherParticles ::
  "WarpX \<Rightarrow> Numerics \<Rightarrow> ParticleBoundaryBuffer \<Rightarrow> MultiParticleContainer
   \<Rightarrow> (nat \<Rightarrow> int \<times> int \<Rightarrow> Array4)
   \<Rightarrow> ParticleBoundaryBuffer \<times> MultiParticleContainer" where
  "gatherParticles warpx lib pbb mypc distance_to_eb =
     (let geom = Geom warpx 0;
          pbb = fold (\<lambda>idim pbb.
                        if isPeriodic geom idim then pbb
                        else fold (\<lambda>iside. gather_face warpx mypc idim iside) [0..<2] pbb)
                  [0..<AMREX_SPACEDIM] pbb;
          pbb = gather_eb warpx lib mypc distance_to_eb pbb
      in (pbb, mypc))"

subsection \<open>The other operations\<close>

definition redistribute :: "ParticleBoundaryBuffer \<Rightarrow> ParticleBoundaryBuffer" where
  "redistribute pbb =
     fold (\<lambda>i pbb.
             let buffer = m_particle_containers pbb ! i;
                 buffer =
                   fold (\<lambda>ispecies buffer.
                           case buffer ! ispecies of
                             Some species_buffer \<Rightarrow>
                               buffer[ispecies :=
                                 Some (Redistribute species_buffer 0 (- 1) 0 0 False)]
                           | None \<Rightarrow> buffer)
                     [0..<numSpecies pbb] buffer
             in pbb\<lparr>m_particle_containers := (m_particle_containers pbb)[i := buffer]\<rparr>)
       [0..<numBoundaries] pbb"

definition clearParticles_boundary :: "nat \<Rightarrow> ParticleBoundaryBuffer \<Rightarrow> ParticleBoundaryBuffer" where
  "clearParticles_boundary i pbb =
     (let buffer = m_particle_containers pbb ! i;
          buffer =
            fold (\<lambda>ispecies buffer.
                    case buffer ! ispecies of
                      Some species_buffer \<Rightarrow>
                        buffer[ispecies := Some (clearParticles_container species_buffer)]
                    | None \<Rightarrow> buffer)
              [0..<numSpecies pbb] buffer
      in pbb\<lparr>m_particle_containers := (m_particle_containers pbb)[i := buffer]\<rparr>)"

definition clearParticles :: "ParticleBoundaryBuffer \<Rightarrow> ParticleBoundaryBuffer" where
  "clearParticles pbb = fold clearParticles_boundary [0..<numBoundaries] pbb"

text \<open>
  \<^verbatim>\<open>static_cast<int>\<close> of a count: the value of its low 32 bits as a signed number.
\<close>

definition static_cast_int :: "nat \<Rightarrow> int" where
  "static_cast_int n = sint (word_of_nat n :: 32 word)"

definition getNumParticlesInContainer ::
  "WarpX \<Rightarrow> ParticleBoundaryBuffer \<Rightarrow> string \<Rightarrow> nat \<Rightarrow> bool \<Rightarrow> int" where
  "getNumParticlesInContainer warpx pbb species_name boundary local =
     (let buffer = m_particle_containers pbb ! boundary;
          index = getSpeciesID warpx species_name
      in case buffer ! index of
           Some c \<Rightarrow> static_cast_int (TotalNumberOfParticles c False local)
         | None \<Rightarrow> 0)"

text \<open>
  \<^verbatim>\<open>WARPX_ALWAYS_ASSERT_WITH_MESSAGE\<close> aborts the run with its message when the condition
  is false; the model returns the message as an error.
\<close>

datatype error = AssertionFailed string

text \<open>\<^verbatim>\<open>std::to_string\<close> of a number that is not negative: its decimal digits.\<close>

fun to_string :: "nat \<Rightarrow> string" where
  "to_string n =
     (if n < 10 then [''0123456789'' ! n]
      else to_string (n div 10) @ [''0123456789'' ! (n mod 10)])"

definition getParticleBuffer ::
  "WarpX \<Rightarrow> ParticleBoundaryBuffer \<Rightarrow> string \<Rightarrow> nat \<Rightarrow> error + ParticleContainer" where
  "getParticleBuffer warpx pbb species_name boundary =
     (let buffer = m_particle_containers pbb ! boundary;
          index = getSpeciesID warpx species_name
      in if m_do_boundary_buffer pbb ! boundary ! index = 0
         then Inl (AssertionFailed
                (''Attempted to get particle buffer for boundary '' @ to_string boundary
                 @ '', which is not used!''))
         else case buffer ! index of
                None \<Rightarrow> Inl (AssertionFailed ''Tried to get a buffer that is not defined!'')
              | Some c \<Rightarrow> Inr c)"

text \<open>
  The pointer variant returns the address of the slot, which exists whether or not the
  container in it is defined; the model returns the content of the slot.
\<close>

definition getParticleBufferPointer ::
  "WarpX \<Rightarrow> ParticleBoundaryBuffer \<Rightarrow> string \<Rightarrow> nat \<Rightarrow> error + ParticleContainer option" where
  "getParticleBufferPointer warpx pbb species_name boundary =
     (let buffer = m_particle_containers pbb ! boundary;
          index = getSpeciesID warpx species_name
      in Inr (buffer ! index))"

section \<open>Definitions for the statements\<close>

subsection \<open>Particles as values\<close>

text \<open>
  The full attribute set of particle \<open>i\<close> of a tile: its id/cpu word, its fixed real
  attributes, its runtime real and its runtime integer attributes, each list in component
  order. \<open>particles\<close> lists the particles of a tile in slot order.
\<close>

record Attributes =
  a_idcpu :: idcpu
  a_rdata :: "real list"
  a_runtime_rdata :: "real list"
  a_runtime_idata :: "int list"

definition attributes :: "ParticleTile \<Rightarrow> nat \<Rightarrow> Attributes" where
  "attributes t i =
     \<lparr>a_idcpu = m_idcpu t ! i, a_rdata = map (\<lambda>c. c ! i) (m_rdata t),
      a_runtime_rdata = map (\<lambda>c. c ! i) (m_runtime_rdata t),
      a_runtime_idata = map (\<lambda>c. c ! i) (m_runtime_idata t)\<rparr>"

definition particles :: "ParticleTile \<Rightarrow> Attributes list" where
  "particles t = map (attributes t) [0..<numParticles t]"

text \<open>
  A tile is well formed for \<open>nr\<close> runtime real and \<open>ni\<close> runtime integer components when
  it has \<open>NAR\<close> fixed real arrays, \<open>nr\<close> and \<open>ni\<close> runtime arrays, and every array has
  one entry per particle.
\<close>

definition tile_ok :: "nat \<Rightarrow> nat \<Rightarrow> ParticleTile \<Rightarrow> bool" where
  "tile_ok nr ni t \<longleftrightarrow>
     length (m_rdata t) = NAR \<and> length (m_runtime_rdata t) = nr \<and>
     length (m_runtime_idata t) = ni \<and>
     list_all (\<lambda>c. length c = numParticles t) (m_rdata t) \<and>
     list_all (\<lambda>c. length c = numParticles t) (m_runtime_rdata t) \<and>
     list_all (\<lambda>c. length c = numParticles t) (m_runtime_idata t)"

text \<open>
  What the two transforms make of a source particle: \<open>timestamped\<close> appends the step index
  to the runtime integer attributes; \<open>moved_to_boundary\<close> replaces the three position
  components by the position that \<open>boundary_intersection\<close> computes from the particle's
  position and momentum.
\<close>

definition timestamped :: "int \<Rightarrow> Attributes \<Rightarrow> Attributes" where
  "timestamped step a = a\<lparr>a_runtime_idata := a_runtime_idata a @ [step]\<rparr>"

definition moved_to_boundary :: "Numerics \<Rightarrow> FindBoundaryIntersection \<Rightarrow> Attributes \<Rightarrow> Attributes" where
  "moved_to_boundary lib f a =
     (case boundary_intersection lib f (a_rdata a ! 0, a_rdata a ! 1, a_rdata a ! 2)
             (a_rdata a ! PIdx_ux, a_rdata a ! PIdx_uy, a_rdata a ! PIdx_uz) of
        (x_temp, y_temp, z_temp) \<Rightarrow>
          a\<lparr>a_rdata := (a_rdata a)[0 := x_temp, 1 := y_temp, 2 := z_temp]\<rparr>)"

text \<open>
  A transform \<open>f\<close> is faithful to \<open>g\<close> on a source tile when, called on a destination tile
  that satisfies \<open>ok\<close> with indices in range, it keeps \<open>ok\<close> and the number of particles,
  and changes the destination slot alone, to \<open>g\<close> of the source index.
\<close>

definition transform_ok ::
  "(ParticleTile \<Rightarrow> bool) \<Rightarrow> (nat \<Rightarrow> Attributes)
   \<Rightarrow> (ParticleTile \<Rightarrow> ParticleTile \<Rightarrow> nat \<Rightarrow> nat \<Rightarrow> ParticleTile) \<Rightarrow> ParticleTile \<Rightarrow> bool" where
  "transform_ok ok g f src \<longleftrightarrow>
     (\<forall>dst si di. ok dst \<longrightarrow> si < numParticles src \<longrightarrow> di < numParticles dst \<longrightarrow>
        ok (f dst src si di) \<and> numParticles (f dst src si di) = numParticles dst \<and>
        particles (f dst src si di) = (particles dst)[di := g si])"

subsection \<open>Containers and the manager\<close>

text \<open>
  A container is well formed when its tiles are, for its own numbers of components.
  \<open>buffered c lev index\<close> lists the particles of the tile of \<open>c\<close> at a level and index,
  and is empty when there is no such tile; \<open>matched\<close> lists what \<open>g\<close> makes of the
  particles of the source tile that the predicate accepts.
\<close>

definition container_ok :: "nat \<Rightarrow> nat \<Rightarrow> ParticleContainer \<Rightarrow> bool" where
  "container_ok nr ni c \<longleftrightarrow>
     NumRuntimeRealComps c = nr \<and> NumRuntimeIntComps c = ni \<and>
     list_all (\<lambda>(key, t). tile_ok nr ni t) (m_particles c)"

definition buffered :: "ParticleContainer \<Rightarrow> nat \<Rightarrow> int \<times> int \<Rightarrow> Attributes list" where
  "buffered c lev index =
     (case map_of (m_particles c) (lev, index) of None \<Rightarrow> [] | Some t \<Rightarrow> particles t)"

definition matched ::
  "(ParticleTile \<Rightarrow> nat \<Rightarrow> int) \<Rightarrow> (ParticleTile \<Rightarrow> nat \<Rightarrow> Attributes)
   \<Rightarrow> ParticleContainer \<Rightarrow> nat \<Rightarrow> int \<times> int \<Rightarrow> Attributes list" where
  "matched predicate g pc lev index =
     (case GetParticles pc lev index of
        None \<Rightarrow> []
      | Some ptile \<Rightarrow>
          map (g ptile) (filter (\<lambda>ip. predicate ptile ip \<noteq> 0) [0..<numParticles ptile]))"

text \<open>The loop over \<open>pti\<close> at one level, and the body of the loop over the dimensions.\<close>

definition gather_level ::
  "(nat \<Rightarrow> int \<times> int \<Rightarrow> ParticleTile \<Rightarrow> nat \<Rightarrow> int)
   \<Rightarrow> (nat \<Rightarrow> int \<times> int \<Rightarrow> int \<Rightarrow> ParticleTile \<Rightarrow> ParticleTile \<Rightarrow> nat \<Rightarrow> nat \<Rightarrow> ParticleTile)
   \<Rightarrow> ParticleContainer \<Rightarrow> nat \<Rightarrow> (int \<times> int) list \<Rightarrow> ParticleContainer \<Rightarrow> ParticleContainer" where
  "gather_level predicate transform pc lev is =
     fold (\<lambda>index. gather_pti (predicate lev index) (transform lev index) pc lev index) is"

definition gather_dim :: "WarpX \<Rightarrow> MultiParticleContainer \<Rightarrow> nat \<Rightarrow> ParticleBoundaryBuffer \<Rightarrow> ParticleBoundaryBuffer" where
  "gather_dim warpx mypc idim pbb =
     (if isPeriodic (Geom warpx 0) idim then pbb
      else fold (\<lambda>iside. gather_face warpx mypc idim iside) [0..<2] pbb)"

definition transforms_ok ::
  "nat \<Rightarrow> nat \<Rightarrow> (nat \<Rightarrow> int \<times> int \<Rightarrow> ParticleTile \<Rightarrow> nat \<Rightarrow> Attributes)
   \<Rightarrow> (nat \<Rightarrow> int \<times> int \<Rightarrow> int \<Rightarrow> ParticleTile \<Rightarrow> ParticleTile \<Rightarrow> nat \<Rightarrow> nat \<Rightarrow> ParticleTile)
   \<Rightarrow> ParticleContainer \<Rightarrow> bool" where
  "transforms_ok nr ni g transform pc \<longleftrightarrow>
     (\<forall>lev < numLevels pc. \<forall>index \<in> set (ParIter pc lev). \<forall>ptile.
        GetParticles pc lev index = Some ptile \<longrightarrow>
        transform_ok (tile_ok nr ni) (g lev index ptile) (transform lev index (int ni - 1)) ptile)"

text \<open>
  A source container is well formed when its iterator visits no tile twice and every tile
  it visits is well formed for the container's components. A slot of the manager is well
  formed for a source container when it is undefined, or holds a well-formed container with
  the source's runtime real components and one runtime integer component more.
\<close>

definition source_ok :: "ParticleContainer \<Rightarrow> bool" where
  "source_ok pc \<longleftrightarrow>
     list_all (\<lambda>lev.
        distinct (ParIter pc lev) \<and>
        list_all (\<lambda>index.
           case GetParticles pc lev index of
             None \<Rightarrow> True
           | Some t \<Rightarrow> tile_ok (NumRuntimeRealComps pc) (NumRuntimeIntComps pc) t)
          (ParIter pc lev))
       [0..<numLevels pc]"

definition slot_ok :: "ParticleContainer \<Rightarrow> ParticleContainer option \<Rightarrow> bool" where
  "slot_ok pc slot =
     (case slot of
        None \<Rightarrow> True
      | Some c \<Rightarrow> container_ok (NumRuntimeRealComps pc) (Suc (NumRuntimeIntComps pc)) c)"

definition slot_buffered ::
  "ParticleContainer option \<Rightarrow> nat \<Rightarrow> int \<times> int \<Rightarrow> Attributes list" where
  "slot_buffered slot lev index =
     (case slot of None \<Rightarrow> [] | Some c \<Rightarrow> buffered c lev index)"

text \<open>The calls of \<open>gather_species\<close> in \<open>gather_face\<close> and in \<open>gather_eb\<close>.\<close>

definition face_slot ::
  "WarpX \<Rightarrow> MultiParticleContainer \<Rightarrow> nat \<Rightarrow> nat \<Rightarrow> nat \<Rightarrow> ParticleContainer option
   \<Rightarrow> ParticleContainer option" where
  "face_slot warpx mypc idim iside i =
     gather_species
       (\<lambda>lev index. IsOutsideDomainBoundary_call
          \<lparr>IsOutsideDomainBoundary.m_plo = ProbLoArray (Geom warpx 0),
           m_phi = ProbHiArray (Geom warpx 0), m_idim = idim, m_iside = int iside\<rparr>)
       (\<lambda>lev index timestamp_index.
          CopyAndTimestamp_call
            \<lparr>CopyAndTimestamp.m_index = timestamp_index,
             CopyAndTimestamp.m_step = getistep warpx 0\<rparr>)
       (mypc ! i)"

definition eb_slot ::
  "WarpX \<Rightarrow> Numerics \<Rightarrow> MultiParticleContainer \<Rightarrow> (nat \<Rightarrow> int \<times> int \<Rightarrow> Array4) \<Rightarrow> nat
   \<Rightarrow> ParticleContainer option \<Rightarrow> ParticleContainer option" where
  "eb_slot warpx lib mypc distance_to_eb i =
     gather_species
       (\<lambda>lev index.
          eb_predicate lib (distance_to_eb lev index)
            (InvCellSizeArray (Geom warpx lev)) (ProbLoArray (Geom warpx 0)))
       (\<lambda>lev index timestamp_index.
          FindBoundaryIntersection_call lib
            \<lparr>FindBoundaryIntersection.m_index = timestamp_index,
             FindBoundaryIntersection.m_step = getistep warpx 0,
             m_dt = getdt warpx lev,
             m_phiarr = distance_to_eb lev index,
             m_dxi = InvCellSizeArray (Geom warpx lev),
             FindBoundaryIntersection.m_plo = ProbLoArray (Geom warpx 0)\<rparr>)
       (mypc ! i)"

definition eb_functor ::
  "WarpX \<Rightarrow> (nat \<Rightarrow> int \<times> int \<Rightarrow> Array4) \<Rightarrow> nat \<Rightarrow> int \<times> int \<Rightarrow> int \<Rightarrow> FindBoundaryIntersection" where
  "eb_functor warpx distance_to_eb lev index timestamp_index =
     \<lparr>FindBoundaryIntersection.m_index = timestamp_index,
      FindBoundaryIntersection.m_step = getistep warpx 0,
      m_dt = getdt warpx lev,
      m_phiarr = distance_to_eb lev index,
      m_dxi = InvCellSizeArray (Geom warpx lev),
      FindBoundaryIntersection.m_plo = ProbLoArray (Geom warpx 0)\<rparr>"

definition eb_matched ::
  "WarpX \<Rightarrow> Numerics \<Rightarrow> (nat \<Rightarrow> int \<times> int \<Rightarrow> Array4) \<Rightarrow> ParticleContainer \<Rightarrow> nat \<Rightarrow> int \<times> int
   \<Rightarrow> Attributes list" where
  "eb_matched warpx lib distance_to_eb pc lev index =
     matched
       (eb_predicate lib (distance_to_eb lev index) (InvCellSizeArray (Geom warpx lev))
          (ProbLoArray (Geom warpx 0)))
       (\<lambda>ptile si.
          moved_to_boundary lib
            (eb_functor warpx distance_to_eb lev index (int (NumRuntimeIntComps pc)))
            (timestamped (getistep warpx 0) (attributes ptile si)))
       pc lev index"

text \<open>
  The sizes of the manager's tables, and the invariant of the manager against the live
  particles \<open>mypc\<close>: one source container per species, each well formed, and every slot
  well formed for the source container of its species.
\<close>

definition pbb_sizes :: "ParticleBoundaryBuffer \<Rightarrow> bool" where
  "pbb_sizes pbb \<longleftrightarrow>
     length (m_particle_containers pbb) = numBoundaries \<and>
     list_all (\<lambda>row. length row = numSpecies pbb) (m_particle_containers pbb) \<and>
     length (m_do_boundary_buffer pbb) = numBoundaries \<and>
     list_all (\<lambda>row. length row = numSpecies pbb) (m_do_boundary_buffer pbb)"

definition pbb_ok :: "ParticleBoundaryBuffer \<Rightarrow> MultiParticleContainer \<Rightarrow> bool" where
  "pbb_ok pbb mypc \<longleftrightarrow>
     pbb_sizes pbb \<and> length mypc = numSpecies pbb \<and> list_all source_ok mypc \<and>
     list_all (\<lambda>b. list_all (\<lambda>i. slot_ok (mypc ! i) (m_particle_containers pbb ! b ! i))
                  [0..<numSpecies pbb])
       [0..<numBoundaries]"

definition buffered_at ::
  "ParticleBoundaryBuffer \<Rightarrow> nat \<Rightarrow> nat \<Rightarrow> nat \<Rightarrow> int \<times> int \<Rightarrow> Attributes list" where
  "buffered_at pbb b i lev index = slot_buffered (m_particle_containers pbb ! b ! i) lev index"

text \<open>
  What one call of \<open>gatherParticles\<close> appends to the tile at a level and index of the
  buffer of boundary \<open>b\<close> and species \<open>i\<close>.
\<close>

definition appended ::
  "WarpX \<Rightarrow> Numerics \<Rightarrow> ParticleBoundaryBuffer \<Rightarrow> MultiParticleContainer
   \<Rightarrow> (nat \<Rightarrow> int \<times> int \<Rightarrow> Array4) \<Rightarrow> nat \<Rightarrow> nat \<Rightarrow> nat \<Rightarrow> int \<times> int \<Rightarrow> Attributes list" where
  "appended warpx lib pbb mypc distance_to_eb b i lev index =
     (if m_do_boundary_buffer pbb ! b ! i = 0 then []
      else if \<not> (lev < numLevels (mypc ! i) \<and> index \<in> set (ParIter (mypc ! i) lev)) then []
      else if b = AMREX_SPACEDIM * 2
        then eb_matched warpx lib distance_to_eb (mypc ! i) lev index
      else if isPeriodic (Geom warpx 0) (b div 2) then []
      else case GetParticles (mypc ! i) lev index of
             None \<Rightarrow> []
           | Some ptile \<Rightarrow>
               map (timestamped (getistep warpx 0))
                 (filter (\<lambda>a. if b mod 2 = 0
                               then a_rdata a ! (b div 2) < ProbLoArray (Geom warpx 0) ! (b div 2)
                               else ProbHiArray (Geom warpx 0) ! (b div 2) \<le> a_rdata a ! (b div 2))
                    (particles ptile)))"

text \<open>The loops of \<open>clearParticles\<close> and \<open>redistribute\<close>, over any operation on a container.\<close>

definition row_map ::
  "(ParticleContainer \<Rightarrow> ParticleContainer) \<Rightarrow> nat \<Rightarrow> ParticleContainer option list
   \<Rightarrow> ParticleContainer option list" where
  "row_map f ns =
     fold (\<lambda>ispecies buffer.
             case buffer ! ispecies of
               Some species_buffer \<Rightarrow> buffer[ispecies := Some (f species_buffer)]
             | None \<Rightarrow> buffer)
       [0..<ns]"

definition boundary_map ::
  "(ParticleContainer \<Rightarrow> ParticleContainer) \<Rightarrow> nat \<Rightarrow> ParticleBoundaryBuffer \<Rightarrow> ParticleBoundaryBuffer" where
  "boundary_map f i pbb =
     pbb\<lparr>m_particle_containers :=
       (m_particle_containers pbb)[i := row_map f (numSpecies pbb) (m_particle_containers pbb ! i)]\<rparr>"

subsection \<open>The crossing point\<close>







subsection \<open>What a call gathers\<close>




subsection \<open>A small simulation\<close>

text \<open>
  One species, \<open>electrons\<close>, in the box from 0 to 10 in each dimension, periodic in \<open>y\<close>,
  at step 7. The species keeps the particles lost at the low \<open>x\<close> face and at the embedded
  boundary. Its one tile holds two particles with one runtime integer attribute: the
  first at \<open>x = -1\<close>, already given a negative id, the second at \<open>x = 6\<close> with momentum 2 in
  \<open>x\<close>. The signed distance to the embedded boundary is \<open>5 - x\<close>, the position update is
  linear, and the bisection stands at its first midpoint.
\<close>

definition ex_warpx :: WarpX where
  "ex_warpx =
     \<lparr>Geom = (\<lambda>lev. \<lparr>ProbLoArray = [0, 0, 0], ProbHiArray = [10, 10, 10],
                       isPeriodic = (\<lambda>d. d = 1), InvCellSizeArray = [1, 1, 1]\<rparr>),
      getistep = (\<lambda>lev. 7), getdt = (\<lambda>lev. 1), getSpeciesID = (\<lambda>name. 0)\<rparr>"

definition ex_lib :: Numerics where
  "ex_lib =
     \<lparr>bisect = (\<lambda>lo hi f. (lo + hi) / 2),
      UpdatePosition = (\<lambda>x y z ux uy uz dt. (x + ux * dt, y + uy * dt, z + uz * dt)),
      compute_weights_nodal = (\<lambda>x y z plo dxi. ((0, 0, 0), [[5 - x]])),
      interp_field_nodal = (\<lambda>i j k W phiarr. hd (hd W)),
      doGatherScalarFieldNodal = (\<lambda>x y z phiarr dxi plo. 5 - x)\<rparr>"

definition ex_tile :: ParticleTile where
  "ex_tile =
     \<lparr>m_idcpu = [\<lparr>idcpu_id = - 1, idcpu_cpu = 0\<rparr>, \<lparr>idcpu_id = 2, idcpu_cpu = 0\<rparr>],
      m_rdata = [[- 1, 6], [5, 5], [5, 5], [1, 1], [2, 2], [0, 0], [0, 0]],
      m_runtime_rdata = [],
      m_runtime_idata = [[3, 4]]\<rparr>"

definition ex_pc :: ParticleContainer where
  "ex_pc =
     \<lparr>numLevels = 1, NumRuntimeRealComps = 0, NumRuntimeIntComps = 1,
      m_particles = [((0, (0, 0)), ex_tile)],
      ParIter = (\<lambda>lev. if lev = 0 then [(0, 0)] else [])\<rparr>"

definition ex_empty_pc :: ParticleContainer where
  "ex_empty_pc =
     \<lparr>numLevels = 1, NumRuntimeRealComps = 0, NumRuntimeIntComps = 1,
      m_particles = [], ParIter = (\<lambda>lev. [])\<rparr>"

definition ex_query :: "string \<Rightarrow> string \<Rightarrow> int option" where
  "ex_query species key =
     (if key = ''save_particles_at_xlo'' \<or> key = ''save_particles_at_eb'' then Some 1 else None)"

definition ex_pbb :: ParticleBoundaryBuffer where
  "ex_pbb = fst (ParticleBoundaryBuffer_init False [''electrons''] ex_query)"

definition ex_distance_to_eb :: "nat \<Rightarrow> int \<times> int \<Rightarrow> Array4" where
  "ex_distance_to_eb lev index = (\<lambda>ijk. 0)"

definition ex_face :: IsOutsideDomainBoundary where
  "ex_face = \<lparr>IsOutsideDomainBoundary.m_plo = [0, 0, 0], m_phi = [10, 10, 10], m_idim = 0, m_iside = 0\<rparr>"

definition ex_gathered :: ParticleBoundaryBuffer where
  "ex_gathered = fst (gatherParticles ex_warpx ex_lib ex_pbb [ex_pc] ex_distance_to_eb)"

definition ex_buffer_tile :: ParticleTile where
  "ex_buffer_tile =
     \<lparr>m_idcpu = [\<lparr>idcpu_id = - 1, idcpu_cpu = 0\<rparr>],
      m_rdata = [[- 1], [5], [5], [1], [2], [0], [0]],
      m_runtime_rdata = [],
      m_runtime_idata = [[3], [7]]\<rparr>"

definition ex_filled :: ParticleBoundaryBuffer where
  "ex_filled =
     \<lparr>m_particle_containers =
        [[Some \<lparr>numLevels = 1, NumRuntimeRealComps = 0, NumRuntimeIntComps = 2,
                 m_particles = [((0, (0, 0)), ex_buffer_tile)],
                 ParIter = (\<lambda>lev. [])\<rparr>],
         [None], [None], [None], [None], [None], [None]],
      m_do_boundary_buffer = [[1], [0], [0], [0], [0], [0], [1]],
      m_do_any_boundary = [1, 0, 0, 0, 0, 0, 1],
      m_boundary_names = boundary_names,
      m_species_names = [''electrons'']\<rparr>"





section \<open>The transforms and the compaction on one tile\<close>

lemma length_copy_comps [simp]: "length (copy_comps n d s si di) = length d"
proof -
  have "length (fold (\<lambda>j a. a[j := (a ! j)[di := s ! j ! si]]) js d) = length d" for js
    by (induction js arbitrary: d) auto
  then show ?thesis by (simp add: copy_comps_def)
qed

lemma nth_copy_comps:
  "j < length d \<Longrightarrow>
   copy_comps n d s si di ! j = (if j < n then (d ! j)[di := s ! j ! si] else d ! j)"
proof (induction n arbitrary: j)
  case 0
  then show ?case by (simp add: copy_comps_def)
next
  case (Suc n)
  have len: "length (copy_comps n d s si di) = length d" by simp
  have step: "copy_comps (Suc n) d s si di =
      (copy_comps n d s si di)[n := (copy_comps n d s si di ! n)[di := s ! n ! si]]"
    by (simp add: copy_comps_def)
  show ?case
  proof (cases "j = n")
    case True
    with Suc.prems Suc.IH [of n] show ?thesis by (simp add: step)
  next
    case False
    with Suc.prems Suc.IH [of j] show ?thesis by (auto simp: step)
  qed
qed

lemma copy_comps_lengths:
  "list_all (\<lambda>c. length c = m) d \<Longrightarrow> list_all (\<lambda>c. length c = m) (copy_comps n d s si di)"
  by (simp add: list_all_length nth_copy_comps)

lemma map_nth_copy_comps:
  assumes "length d = n" "length s = n" "list_all (\<lambda>c. length c = m) d" "di < m"
  shows "map (\<lambda>c. c ! k) (copy_comps n d s si di) =
         (if k = di then map (\<lambda>c. c ! si) s else map (\<lambda>c. c ! k) d)"
  using assms by (auto simp: list_eq_iff_nth_eq nth_copy_comps list_all_length)

lemma map_nth_copy_comps_Suc:
  assumes "length d = Suc n" "length s = n" "list_all (\<lambda>c. length c = m) d" "di < m"
  shows "map (\<lambda>c. c ! k) (write_timestamp (int n) step di (copy_comps n d s si di)) =
         (if k = di then map (\<lambda>c. c ! si) s @ [step] else map (\<lambda>c. c ! k) d)"
  using assms
  by (auto simp: list_eq_iff_nth_eq nth_copy_comps list_all_length write_timestamp_def
      nth_list_update nth_append less_Suc_eq)

lemma length_particles [simp]: "length (particles t) = numParticles t"
  by (simp add: particles_def)

lemma nth_particles [simp]: "i < numParticles t \<Longrightarrow> particles t ! i = attributes t i"
  by (simp add: particles_def)

lemma CopyAndTimestamp_slot:
  assumes "tile_ok nr ni src" "tile_ok nr (Suc ni) dst"
    and "dst_i < numParticles dst" "CopyAndTimestamp.m_index f = int ni"
  shows "tile_ok nr (Suc ni) (CopyAndTimestamp_call f dst src src_i dst_i)"
    and "numParticles (CopyAndTimestamp_call f dst src src_i dst_i) = numParticles dst"
    and "particles (CopyAndTimestamp_call f dst src src_i dst_i) =
         (particles dst)[dst_i := timestamped (CopyAndTimestamp.m_step f) (attributes src src_i)]"
proof -
  let ?d = "CopyAndTimestamp_call f dst src src_i dst_i"
  show np: "numParticles ?d = numParticles dst"
    using assms by (simp add: CopyAndTimestamp_call_def numParticles_def Let_def)
  show "tile_ok nr (Suc ni) ?d"
    using assms
    by (simp add: tile_ok_def CopyAndTimestamp_call_def Let_def numParticles_def
        copy_comps_lengths write_timestamp_def list_all_length nth_list_update nth_copy_comps
        m_num_runtime_int_def m_num_runtime_real_def)
  have src: "length (m_rdata src) = NAR" "length (m_runtime_rdata src) = nr"
      "length (m_runtime_idata src) = ni"
    using assms(1) by (simp_all add: tile_ok_def)
  have dst: "length (m_rdata dst) = NAR" "length (m_runtime_rdata dst) = nr"
      "length (m_runtime_idata dst) = Suc ni"
      "list_all (\<lambda>c. length c = numParticles dst) (m_rdata dst)"
      "list_all (\<lambda>c. length c = numParticles dst) (m_runtime_rdata dst)"
      "list_all (\<lambda>c. length c = numParticles dst) (m_runtime_idata dst)"
    using assms(2) by (simp_all add: tile_ok_def)
  note r1 = map_nth_copy_comps [OF dst(1) src(1) dst(4) assms(3)]
  note r2 = map_nth_copy_comps [OF dst(2) src(2) dst(5) assms(3)]
  note r3 = map_nth_copy_comps_Suc [OF dst(3) src(3) dst(6) assms(3)]
  have "attributes ?d k = (if k = dst_i then timestamped (CopyAndTimestamp.m_step f) (attributes src src_i)
                           else attributes dst k)" if "k < numParticles dst" for k
    using assms(3,4) that src
    by (simp add: attributes_def CopyAndTimestamp_call_def Let_def r1 r2 r3
        timestamped_def m_num_runtime_int_def m_num_runtime_real_def)
       (simp add: numParticles_def)
  then show "particles ?d = (particles dst)[dst_i := timestamped (CopyAndTimestamp.m_step f) (attributes src src_i)]"
    using np by (simp add: list_eq_iff_nth_eq nth_list_update)
qed

lemma length_resize_array [simp]: "length (resize_array n d xs) = n"
  by (simp add: resize_array_def)

lemma nth_resize_array: "k < length xs \<Longrightarrow> length xs \<le> n \<Longrightarrow> resize_array n d xs ! k = xs ! k"
  by (simp add: resize_array_def nth_append)

lemma numParticles_resize [simp]: "numParticles (resize t n) = n"
  by (simp add: resize_def numParticles_def)

lemma tile_ok_resize: "tile_ok nr ni t \<Longrightarrow> tile_ok nr ni (resize t n)"
  by (simp add: tile_ok_def resize_def numParticles_def list_all_length)

lemma attributes_resize:
  "tile_ok nr ni t \<Longrightarrow> k < numParticles t \<Longrightarrow> numParticles t \<le> n \<Longrightarrow>
   attributes (resize t n) k = attributes t k"
  by (simp add: attributes_def resize_def tile_ok_def numParticles_def nth_resize_array
      list_all_length list_eq_iff_nth_eq)

lemma take_particles_resize:
  "tile_ok nr ni t \<Longrightarrow> numParticles t \<le> n \<Longrightarrow>
   take (numParticles t) (particles (resize t n)) = particles t"
  by (simp add: list_eq_iff_nth_eq attributes_resize)

lemma scatter_fold:
  assumes f: "transform_ok ok g f src"
  shows "ok dst \<Longrightarrow> \<forall>i \<in> set is. s + i < numParticles src \<Longrightarrow>
     d + off + length (filter (\<lambda>i. p src (s + i) \<noteq> 0) is) \<le> numParticles dst \<Longrightarrow>
     (case fold (\<lambda>i (dst, offset).
                  if p src (s + i) \<noteq> 0
                  then (f dst src (s + i) (d + offset), offset + 1)
                  else (dst, offset)) is (dst, off) of
        (dst', off') \<Rightarrow>
          ok dst' \<and> numParticles dst' = numParticles dst \<and>
          off' = off + length (filter (\<lambda>i. p src (s + i) \<noteq> 0) is) \<and>
          particles dst' =
            take (d + off) (particles dst) @
            map (\<lambda>i. g (s + i)) (filter (\<lambda>i. p src (s + i) \<noteq> 0) is) @
            drop (d + off') (particles dst))"
proof (induction "is" arbitrary: dst off)
  case Nil
  then show ?case by simp
next
  case (Cons i "is")
  show ?case
  proof (cases "p src (s + i) \<noteq> 0")
    case False
    with Cons.IH [of dst off] Cons.prems show ?thesis by simp
  next
    case True
    let ?dst1 = "f dst src (s + i) (d + off)"
    have lt: "d + off < numParticles dst" using Cons.prems(3) True by simp
    have si: "s + i < numParticles src" using Cons.prems(2) by simp
    from f Cons.prems(1) si lt
    have ok1: "ok ?dst1" and np1: "numParticles ?dst1 = numParticles dst"
      and ps1: "particles ?dst1 = (particles dst)[d + off := g (s + i)]"
      unfolding transform_ok_def by blast+
    have pre: "\<forall>i \<in> set is. s + i < numParticles src" using Cons.prems(2) by simp
    have bound: "d + Suc off + length (filter (\<lambda>i. p src (s + i) \<noteq> 0) is) \<le> numParticles ?dst1"
      using Cons.prems(3) True np1 by simp
    note IH = Cons.IH [OF ok1 pre bound]
    have len: "d + off < length (particles dst)" using lt by simp
    have tk: "take (Suc (d + off)) ((particles dst)[d + off := g (s + i)]) =
              take (d + off) (particles dst) @ [g (s + i)]"
      using len by (simp add: take_Suc_conv_app_nth)
    show ?thesis
      using IH True np1 by (simp add: ps1 tk split: prod.splits)
  qed
qed

lemma sum_list_if_filter:
  "sum_list (map (\<lambda>i. if P i then 1 else 0) xs) = length (filter P xs)"
  by (induction xs) auto

lemma gather_tile_particles:
  assumes t: "transform_ok (tile_ok nr ni) g (transform (int ni - 1)) ptile"
    and b: "tile_ok nr ni ptile_buffer"
  shows "tile_ok nr ni (gather_tile predicate transform ptile_buffer ptile)"
    and "particles (gather_tile predicate transform ptile_buffer ptile) =
         particles ptile_buffer @
         map g (filter (\<lambda>ip. predicate ptile ip \<noteq> 0) [0..<numParticles ptile])"
proof -
  let ?P = "\<lambda>ip. predicate ptile ip \<noteq> 0"
  let ?cnt = "length (filter ?P [0..<numParticles ptile])"
  let ?n = "numParticles ptile_buffer + ?cnt"
  let ?r = "resize ptile_buffer ?n"
  have cnt: "reduce_sum (numParticles ptile) (\<lambda>ip. if ?P ip then 1 else 0) = ?cnt"
    by (simp add: reduce_sum_def sum_list_if_filter)
  have okr: "tile_ok nr ni ?r" using b by (rule tile_ok_resize)
  have ix: "NumRuntimeIntComps_tile ?r = ni"
    using okr by (simp add: tile_ok_def NumRuntimeIntComps_tile_def)
  have rng: "\<forall>i \<in> set [0..<numParticles ptile]. 0 + i < numParticles ptile" by simp
  have bnd: "numParticles ptile_buffer + 0 +
        length (filter (\<lambda>i. predicate ptile (0 + i) \<noteq> 0) [0..<numParticles ptile])
        \<le> numParticles ?r" by simp
  have S: "case fold (\<lambda>i (dst, offset).
                  if predicate ptile (0 + i) \<noteq> 0
                  then (transform (int ni - 1) dst ptile (0 + i)
                          (numParticles ptile_buffer + offset), offset + 1)
                  else (dst, offset)) [0..<numParticles ptile] (?r, 0) of
        (dst', off') \<Rightarrow>
          tile_ok nr ni dst' \<and> numParticles dst' = numParticles ?r \<and>
          off' = 0 + length (filter (\<lambda>i. predicate ptile (0 + i) \<noteq> 0) [0..<numParticles ptile]) \<and>
          particles dst' =
            take (numParticles ptile_buffer + 0) (particles ?r) @
            map (\<lambda>i. g (0 + i)) (filter (\<lambda>i. predicate ptile (0 + i) \<noteq> 0) [0..<numParticles ptile]) @
            drop (numParticles ptile_buffer + off') (particles ?r)"
    by (rule scatter_fold [where ok = "tile_ok nr ni" and g = g and src = ptile and s = 0
          and d = "numParticles ptile_buffer" and off = 0 and p = predicate,
          OF t okr rng bnd])
  have eq: "gather_tile predicate transform ptile_buffer ptile =
      fst (fold (\<lambda>i (dst, offset).
                  if predicate ptile (0 + i) \<noteq> 0
                  then (transform (int ni - 1) dst ptile (0 + i)
                          (numParticles ptile_buffer + offset), offset + 1)
                  else (dst, offset)) [0..<numParticles ptile] (?r, 0))"
    unfolding gather_tile_def Let_def cnt filterAndTransformParticles_def ix by simp
  show "tile_ok nr ni (gather_tile predicate transform ptile_buffer ptile)"
    using S unfolding eq by (simp split: prod.splits)
  have "particles (gather_tile predicate transform ptile_buffer ptile) =
        take (numParticles ptile_buffer) (particles ?r) @ map g (filter ?P [0..<numParticles ptile])"
    using S unfolding eq by (simp split: prod.splits)
  then show "particles (gather_tile predicate transform ptile_buffer ptile) =
         particles ptile_buffer @ map g (filter ?P [0..<numParticles ptile])"
    using take_particles_resize [OF b, of ?n] by simp
qed

lemma m_aos_pos_assign_view:
  assumes "tile_ok nr ni t" "i < numParticles t" "d < NAR"
  shows "tile_ok nr ni (m_aos_pos_assign t i d v)"
    and "numParticles (m_aos_pos_assign t i d v) = numParticles t"
    and "particles (m_aos_pos_assign t i d v) =
         (particles t)[i := (attributes t i)\<lparr>a_rdata := (a_rdata (attributes t i))[d := v]\<rparr>]"
proof -
  show np: "numParticles (m_aos_pos_assign t i d v) = numParticles t"
    by (simp add: m_aos_pos_assign_def numParticles_def)
  show "tile_ok nr ni (m_aos_pos_assign t i d v)"
    using assms
    by (simp add: tile_ok_def m_aos_pos_assign_def numParticles_def list_all_length
        nth_list_update)
  have "attributes (m_aos_pos_assign t i d v) k =
        (if k = i then (attributes t i)\<lparr>a_rdata := (a_rdata (attributes t i))[d := v]\<rparr>
         else attributes t k)" if "k < numParticles t" for k
    using assms that
    by (auto simp: attributes_def m_aos_pos_assign_def tile_ok_def numParticles_def
        list_all_length list_eq_iff_nth_eq nth_list_update)
  then show "particles (m_aos_pos_assign t i d v) =
         (particles t)[i := (attributes t i)\<lparr>a_rdata := (a_rdata (attributes t i))[d := v]\<rparr>]"
    using np by (simp add: list_eq_iff_nth_eq nth_list_update)
qed

lemma copy_comps_absorb:
  assumes "k < n" "n \<le> length d" "c = (d ! k)[di := s ! k ! si]"
  shows "copy_comps n (d[k := c]) s si di = copy_comps n d s si di"
proof -
  have "copy_comps n (d[k := c]) s si di ! j = copy_comps n d s si di ! j" if "j < length d" for j
    using that assms by (simp add: nth_copy_comps nth_list_update)
  then show ?thesis by (simp add: list_eq_iff_nth_eq)
qed

lemma m_aos_assign_absorbed:
  assumes "length (m_rdata dst) = NAR"
  shows "(let d1 = m_aos_assign dst dst_i (m_aos src src_i)
          in d1\<lparr>m_rdata := copy_comps NAR (m_rdata d1) (m_rdata src) src_i dst_i\<rparr>) =
         (let d1 = dst\<lparr>m_idcpu := (m_idcpu dst)[dst_i := m_idcpu src ! src_i]\<rparr>
          in d1\<lparr>m_rdata := copy_comps NAR (m_rdata d1) (m_rdata src) src_i dst_i\<rparr>)"
proof -
  have up: "[0..<AMREX_SPACEDIM] = [0, 1, 2]"
    by (simp add: AMREX_SPACEDIM_def upt_rec)
  have n: "(0::nat) < NAR" "(1::nat) < NAR" "(2::nat) < NAR"
    by (simp_all add: NAR_def PIdx_nattribs_def)
  show ?thesis
    using assms n
    by (simp add: m_aos_assign_def m_aos_def up m_aos_pos_assign_def Let_def copy_comps_absorb)
qed

lemma FindBoundaryIntersection_as_copy:
  assumes "length (m_rdata dst) = NAR"
  shows "FindBoundaryIntersection_call lib f dst src src_i dst_i =
     (let c = CopyAndTimestamp_call
                \<lparr>CopyAndTimestamp.m_index = FindBoundaryIntersection.m_index f,
                 CopyAndTimestamp.m_step = FindBoundaryIntersection.m_step f\<rparr> dst src src_i dst_i
      in case boundary_intersection lib f (get_particle_position (getSuperParticle c dst_i))
                (m_rdata c ! PIdx_ux ! dst_i, m_rdata c ! PIdx_uy ! dst_i,
                 m_rdata c ! PIdx_uz ! dst_i) of
           (x_temp, y_temp, z_temp) \<Rightarrow>
             m_aos_pos_assign
               (m_aos_pos_assign (m_aos_pos_assign c dst_i 0 x_temp) dst_i 1 y_temp)
               dst_i 2 z_temp)"
proof -
  note a = m_aos_assign_absorbed [OF assms, of dst_i src src_i, unfolded Let_def]
  show ?thesis
    unfolding FindBoundaryIntersection_call_def CopyAndTimestamp_call_def Let_def a
    by simp
qed

lemma FindBoundaryIntersection_slot:
  assumes "tile_ok nr ni src" "tile_ok nr (Suc ni) dst"
    and "dst_i < numParticles dst" "FindBoundaryIntersection.m_index f = int ni"
  shows "tile_ok nr (Suc ni) (FindBoundaryIntersection_call lib f dst src src_i dst_i)"
    and "numParticles (FindBoundaryIntersection_call lib f dst src src_i dst_i) = numParticles dst"
    and "particles (FindBoundaryIntersection_call lib f dst src src_i dst_i) =
         (particles dst)[dst_i := moved_to_boundary lib f
             (timestamped (FindBoundaryIntersection.m_step f) (attributes src src_i))]"
proof -
  let ?cf = "\<lparr>CopyAndTimestamp.m_index = FindBoundaryIntersection.m_index f,
              CopyAndTimestamp.m_step = FindBoundaryIntersection.m_step f\<rparr>"
  let ?c = "CopyAndTimestamp_call ?cf dst src src_i dst_i"
  let ?a = "timestamped (FindBoundaryIntersection.m_step f) (attributes src src_i)"
  have len: "length (m_rdata dst) = NAR" using assms(2) by (simp add: tile_ok_def)
  have idx: "CopyAndTimestamp.m_index ?cf = int ni" using assms(4) by simp
  note C = CopyAndTimestamp_slot [OF assms(1,2,3) idx, of src_i]
  have di: "dst_i < numParticles ?c" using C(2) assms(3) by simp
  have at: "attributes ?c dst_i = ?a"
    using C(3) di assms(3) nth_particles [OF di] by simp
  have lenc: "length (m_rdata ?c) = NAR" using C(1) by (simp add: tile_ok_def)
  have n: "(0::nat) < NAR" "(1::nat) < NAR" "(2::nat) < NAR" "PIdx_ux < NAR" "PIdx_uy < NAR"
      "PIdx_uz < NAR"
    by (simp_all add: NAR_def PIdx_nattribs_def PIdx_ux_def PIdx_uy_def PIdx_uz_def)
  have rd: "m_rdata ?c ! j ! dst_i = a_rdata ?a ! j" if "j < NAR" for j
    using that lenc at [symmetric] by (simp add: attributes_def)
  have xyz: "get_particle_position (getSuperParticle ?c dst_i) =
             (a_rdata ?a ! 0, a_rdata ?a ! 1, a_rdata ?a ! 2)"
    using rd [of 0] rd [of 1] rd [of 2] n lenc
    by (simp add: get_particle_position_def pos_def getSuperParticle_def)
  obtain x y z where bi: "boundary_intersection lib f (a_rdata ?a ! 0, a_rdata ?a ! 1, a_rdata ?a ! 2)
             (a_rdata ?a ! PIdx_ux, a_rdata ?a ! PIdx_uy, a_rdata ?a ! PIdx_uz) = (x, y, z)"
    by (metis prod_cases3)
  have eq: "FindBoundaryIntersection_call lib f dst src src_i dst_i =
        m_aos_pos_assign (m_aos_pos_assign (m_aos_pos_assign ?c dst_i 0 x) dst_i 1 y) dst_i 2 z"
    using bi by (simp add: FindBoundaryIntersection_as_copy [OF len] Let_def xyz rd n)
  note A0 = m_aos_pos_assign_view [OF C(1) di n(1), of x]
  have d0: "dst_i < numParticles (m_aos_pos_assign ?c dst_i 0 x)" using A0(2) di by simp
  note A1 = m_aos_pos_assign_view [OF A0(1) d0 n(2), of y]
  have d1: "dst_i < numParticles (m_aos_pos_assign (m_aos_pos_assign ?c dst_i 0 x) dst_i 1 y)"
    using A1(2) d0 by simp
  note A2 = m_aos_pos_assign_view [OF A1(1) d1 n(3), of z]
  show "tile_ok nr (Suc ni) (FindBoundaryIntersection_call lib f dst src src_i dst_i)"
    unfolding eq by (rule A2(1))
  show "numParticles (FindBoundaryIntersection_call lib f dst src src_i dst_i) = numParticles dst"
    unfolding eq using A2(2) A1(2) A0(2) C(2) by simp
  have m: "moved_to_boundary lib f ?a = ?a\<lparr>a_rdata := (a_rdata ?a)[0 := x, 1 := y, 2 := z]\<rparr>"
    using bi by (simp add: moved_to_boundary_def)
  let ?t0 = "m_aos_pos_assign ?c dst_i 0 x"
  let ?t1 = "m_aos_pos_assign ?t0 dst_i 1 y"
  have ldst: "dst_i < length (particles dst)" using assms(3) by simp
  have p0: "particles ?t0 = (particles dst)[dst_i := ?a\<lparr>a_rdata := (a_rdata ?a)[0 := x]\<rparr>]"
    unfolding A0(3) C(3) at by simp
  have at0: "attributes ?t0 dst_i = ?a\<lparr>a_rdata := (a_rdata ?a)[0 := x]\<rparr>"
    using nth_particles [OF d0] ldst unfolding p0 by simp
  have p1: "particles ?t1 = (particles dst)[dst_i := ?a\<lparr>a_rdata := (a_rdata ?a)[0 := x, 1 := y]\<rparr>]"
    unfolding A1(3) p0 at0 by simp
  have at1: "attributes ?t1 dst_i = ?a\<lparr>a_rdata := (a_rdata ?a)[0 := x, 1 := y]\<rparr>"
    using nth_particles [OF d1] ldst unfolding p1 by simp
  show "particles (FindBoundaryIntersection_call lib f dst src src_i dst_i) =
         (particles dst)[dst_i := moved_to_boundary lib f ?a]"
    unfolding eq m A2(3) p1 at1 by simp
qed



section \<open>One species at one boundary\<close>

lemma list_all_update:
  "list_all P al \<Longrightarrow> P (k, v) \<Longrightarrow> list_all P (AList.update k v al)"
  by (induction al) auto

lemma map_of_tile_ok:
  "list_all (\<lambda>(key, t). tile_ok nr ni t) al \<Longrightarrow> map_of al k = Some t \<Longrightarrow> tile_ok nr ni t"
  by (induction al) (auto split: if_splits)

lemma tile_ok_define_tile: "tile_ok nr ni (define_tile nr ni)"
  by (simp add: tile_ok_def define_tile_def numParticles_def list_all_length)

lemma particles_define_tile [simp]: "particles (define_tile nr ni) = []"
  by (simp add: particles_def define_tile_def numParticles_def)

lemma gather_pti_effect:
  assumes c: "container_ok nr ni sb"
    and t: "\<And>ptile. GetParticles pc lev index = Some ptile \<Longrightarrow>
              transform_ok (tile_ok nr ni) (g ptile) (transform (int ni - 1)) ptile"
  shows "container_ok nr ni (gather_pti predicate transform pc lev index sb)"
    and "buffered (gather_pti predicate transform pc lev index sb) lev' index' =
         buffered sb lev' index' @
         (if lev' = lev \<and> index' = index then matched predicate g pc lev index else [])"
proof -
  let ?r = "gather_pti predicate transform pc lev index sb"
  show "container_ok nr ni ?r"
  proof (cases "GetParticles pc lev index")
    case None
    then show ?thesis using c by (simp add: gather_pti_def)
  next
    case (Some ptile)
    show ?thesis
    proof (cases "map_of (m_particles sb) (lev, index)")
      case None
      have "tile_ok nr ni (gather_tile predicate transform (define_tile nr ni) ptile)"
        by (rule gather_tile_particles(1) [where transform = transform, OF t [OF Some] tile_ok_define_tile])
      then show ?thesis
        using c Some None
        by (auto simp: gather_pti_def DefineAndReturnParticleTile_def Let_def container_ok_def
            tile_ok_define_tile intro!: list_all_update)
    next
      case Some2: (Some tb)
      have tb: "tile_ok nr ni tb"
        using c Some2 by (auto simp: container_ok_def dest: map_of_tile_ok)
      have "tile_ok nr ni (gather_tile predicate transform tb ptile)"
        by (rule gather_tile_particles(1) [where transform = transform, OF t [OF Some] tb])
      then show ?thesis
        using c Some Some2
        by (auto simp: gather_pti_def DefineAndReturnParticleTile_def Let_def container_ok_def
            intro!: list_all_update)
    qed
  qed
  show "buffered ?r lev' index' = buffered sb lev' index' @
         (if lev' = lev \<and> index' = index then matched predicate g pc lev index else [])"
  proof (cases "GetParticles pc lev index")
    case None
    then show ?thesis by (simp add: gather_pti_def matched_def)
  next
    case (Some ptile)
    show ?thesis
    proof (cases "map_of (m_particles sb) (lev, index)")
      case None
      have p: "particles (gather_tile predicate transform (define_tile nr ni) ptile) =
            particles (define_tile nr ni) @
            map (g ptile) (filter (\<lambda>ip. predicate ptile ip \<noteq> 0) [0..<numParticles ptile])"
        by (rule gather_tile_particles(2) [where transform = transform, OF t [OF Some] tile_ok_define_tile])
      show ?thesis
        using c Some None p
        by (auto simp: gather_pti_def DefineAndReturnParticleTile_def Let_def container_ok_def
            buffered_def matched_def update_conv')
    next
      case Some2: (Some tb)
      have tb: "tile_ok nr ni tb"
        using c Some2 by (auto simp: container_ok_def dest: map_of_tile_ok)
      have p: "particles (gather_tile predicate transform tb ptile) =
            particles tb @
            map (g ptile) (filter (\<lambda>ip. predicate ptile ip \<noteq> 0) [0..<numParticles ptile])"
        by (rule gather_tile_particles(2) [where transform = transform, OF t [OF Some] tb])
      show ?thesis
        using c Some Some2 p
        by (auto simp: gather_pti_def DefineAndReturnParticleTile_def Let_def container_ok_def
            buffered_def matched_def update_conv')
    qed
  qed
qed

lemma gather_level_effect:
  assumes t: "\<And>index ptile. index \<in> set is \<Longrightarrow> GetParticles pc lev index = Some ptile \<Longrightarrow>
              transform_ok (tile_ok nr ni) (g lev index ptile) (transform lev index (int ni - 1)) ptile"
  shows "container_ok nr ni sb \<Longrightarrow> distinct is \<Longrightarrow>
     container_ok nr ni (gather_level predicate transform pc lev is sb) \<and>
     (\<forall>lev' index'. buffered (gather_level predicate transform pc lev is sb) lev' index' =
         buffered sb lev' index' @
         (if lev' = lev \<and> index' \<in> set is
          then matched (predicate lev index') (g lev index') pc lev index' else []))"
  using t
proof (induction "is" arbitrary: sb)
  case Nil
  then show ?case by (simp add: gather_level_def)
next
  case (Cons i "is")
  let ?sb1 = "gather_pti (predicate lev i) (transform lev i) pc lev i sb"
  have t1: "\<And>ptile. GetParticles pc lev i = Some ptile \<Longrightarrow>
       transform_ok (tile_ok nr ni) (g lev i ptile) (transform lev i (int ni - 1)) ptile"
    using Cons.prems(3) by simp
  note E = gather_pti_effect [where g = "g lev i" and transform = "transform lev i"
      and predicate = "predicate lev i", OF Cons.prems(1) t1]
  have d: "distinct is" "i \<notin> set is" using Cons.prems(2) by simp_all
  have t2: "\<And>index ptile. index \<in> set is \<Longrightarrow> GetParticles pc lev index = Some ptile \<Longrightarrow>
       transform_ok (tile_ok nr ni) (g lev index ptile) (transform lev index (int ni - 1)) ptile"
    using Cons.prems(3) by simp
  note IH = Cons.IH [OF E(1) d(1) t2]
  have eq: "gather_level predicate transform pc lev (i # is) sb =
            gather_level predicate transform pc lev is ?sb1"
    by (simp add: gather_level_def)
  show ?case
    unfolding eq using IH d(2) by (auto simp: E(2))
qed

lemma gather_levels_effect:
  assumes t: "transforms_ok nr ni g transform pc"
    and d: "\<forall>lev < numLevels pc. distinct (ParIter pc lev)"
    and c: "container_ok nr ni sb"
  shows "L \<le> numLevels pc \<Longrightarrow>
     container_ok nr ni
       (fold (\<lambda>lev. gather_level predicate transform pc lev (ParIter pc lev)) [0..<L] sb) \<and>
     (\<forall>lev' index'.
        buffered (fold (\<lambda>lev. gather_level predicate transform pc lev (ParIter pc lev)) [0..<L] sb)
          lev' index' =
        buffered sb lev' index' @
        (if lev' < L \<and> index' \<in> set (ParIter pc lev')
         then matched (predicate lev' index') (g lev' index') pc lev' index' else []))"
proof (induction L)
  case 0
  then show ?case using c by simp
next
  case (Suc L)
  let ?sb1 = "fold (\<lambda>lev. gather_level predicate transform pc lev (ParIter pc lev)) [0..<L] sb"
  have Lle: "L \<le> numLevels pc" using Suc.prems by simp
  note IH = Suc.IH [OF Lle, THEN conjunct1] Suc.IH [OF Lle, THEN conjunct2, rule_format]
  have L: "L < numLevels pc" using Suc.prems by simp
  have t1: "\<And>index ptile. index \<in> set (ParIter pc L) \<Longrightarrow> GetParticles pc L index = Some ptile \<Longrightarrow>
       transform_ok (tile_ok nr ni) (g L index ptile) (transform L index (int ni - 1)) ptile"
    using t L unfolding transforms_ok_def by blast
  have dL: "distinct (ParIter pc L)" using d L by simp
  note E = gather_level_effect [where g = g and transform = transform and predicate = predicate,
      OF t1 IH(1) dL]
  show ?case
    using E by (auto simp: IH(2) less_Suc_eq)
qed

lemma source_okD:
  assumes "source_ok pc" "lev < numLevels pc"
  shows "distinct (ParIter pc lev)"
    and "index \<in> set (ParIter pc lev) \<Longrightarrow> GetParticles pc lev index = Some t \<Longrightarrow>
         tile_ok (NumRuntimeRealComps pc) (NumRuntimeIntComps pc) t"
  using assms by (auto simp: source_ok_def list_all_iff split: option.splits)

lemma container_ok_fresh:
  "container_ok (NumRuntimeRealComps pc) (Suc (NumRuntimeIntComps pc)) (AddIntComp (make_alike pc))"
  by (simp add: container_ok_def AddIntComp_def make_alike_def)

lemma buffered_fresh [simp]: "buffered (AddIntComp (make_alike pc)) lev index = []"
  by (simp add: buffered_def AddIntComp_def make_alike_def)

lemma gather_species_effect:
  assumes t: "transforms_ok (NumRuntimeRealComps pc) (Suc (NumRuntimeIntComps pc)) g transform pc"
    and d: "\<forall>lev < numLevels pc. distinct (ParIter pc lev)"
    and s: "slot_ok pc slot"
  shows "isDefined (gather_species predicate transform pc slot)"
    and "slot_ok pc (gather_species predicate transform pc slot)"
    and "slot_buffered (gather_species predicate transform pc slot) lev index =
         slot_buffered slot lev index @
         (if lev < numLevels pc \<and> index \<in> set (ParIter pc lev)
          then matched (predicate lev index) (g lev index) pc lev index else [])"
proof -
  let ?c0 = "case slot of None \<Rightarrow> AddIntComp (make_alike pc) | Some c \<Rightarrow> c"
  have c0: "container_ok (NumRuntimeRealComps pc) (Suc (NumRuntimeIntComps pc)) ?c0"
    using s by (auto simp: slot_ok_def container_ok_fresh split: option.splits)
  have b0: "buffered ?c0 lev index = slot_buffered slot lev index"
    by (simp add: slot_buffered_def split: option.splits)
  have eq: "gather_species predicate transform pc slot =
        Some (fold (\<lambda>lev. gather_level predicate transform pc lev (ParIter pc lev))
                [0..<numLevels pc] ?c0)"
    by (simp add: gather_species_def gather_level_def)
  note E = gather_levels_effect [where predicate = predicate, OF t d c0 order_refl]
  show "isDefined (gather_species predicate transform pc slot)"
    by (simp add: eq isDefined_def)
  show "slot_ok pc (gather_species predicate transform pc slot)"
    using E by (simp add: eq slot_ok_def)
  show "slot_buffered (gather_species predicate transform pc slot) lev index =
         slot_buffered slot lev index @
         (if lev < numLevels pc \<and> index \<in> set (ParIter pc lev)
          then matched (predicate lev index) (g lev index) pc lev index else [])"
    using E [THEN conjunct2, rule_format, of lev index] by (simp add: eq slot_buffered_def b0)
qed

lemma transforms_ok_CopyAndTimestamp:
  assumes "source_ok pc"
  shows "transforms_ok (NumRuntimeRealComps pc) (Suc (NumRuntimeIntComps pc))
           (\<lambda>lev index ptile si. timestamped step (attributes ptile si))
           (\<lambda>lev index timestamp_index.
              CopyAndTimestamp_call \<lparr>CopyAndTimestamp.m_index = timestamp_index,
                                     CopyAndTimestamp.m_step = step\<rparr>) pc"
  unfolding transforms_ok_def transform_ok_def
proof (intro allI impI ballI)
  fix lev index ptile dst si di
  assume "lev < numLevels pc" "index \<in> set (ParIter pc lev)"
    "GetParticles pc lev index = Some ptile"
  then have src: "tile_ok (NumRuntimeRealComps pc) (NumRuntimeIntComps pc) ptile"
    using source_okD(2) [OF assms] by blast
  assume dst: "tile_ok (NumRuntimeRealComps pc) (Suc (NumRuntimeIntComps pc)) dst"
    and di: "di < numParticles dst"
  let ?f = "\<lparr>CopyAndTimestamp.m_index = int (Suc (NumRuntimeIntComps pc)) - 1,
             CopyAndTimestamp.m_step = step\<rparr>"
  have ix: "CopyAndTimestamp.m_index ?f = int (NumRuntimeIntComps pc)" by simp
  note S = CopyAndTimestamp_slot [OF src dst di ix, of si]
  show "tile_ok (NumRuntimeRealComps pc) (Suc (NumRuntimeIntComps pc))
          (CopyAndTimestamp_call ?f dst ptile si di) \<and>
        numParticles (CopyAndTimestamp_call ?f dst ptile si di) = numParticles dst \<and>
        particles (CopyAndTimestamp_call ?f dst ptile si di) =
          (particles dst)[di := timestamped step (attributes ptile si)]"
    using S by simp
qed

lemma transforms_ok_FindBoundaryIntersection:
  assumes "source_ok pc"
    and F: "\<And>lev index k. FindBoundaryIntersection.m_index (F lev index k) = k"
  shows "transforms_ok (NumRuntimeRealComps pc) (Suc (NumRuntimeIntComps pc))
           (\<lambda>lev index ptile si.
              moved_to_boundary lib (F lev index (int (NumRuntimeIntComps pc)))
                (timestamped (FindBoundaryIntersection.m_step (F lev index (int (NumRuntimeIntComps pc))))
                   (attributes ptile si)))
           (\<lambda>lev index timestamp_index.
              FindBoundaryIntersection_call lib (F lev index timestamp_index)) pc"
  unfolding transforms_ok_def transform_ok_def
proof (intro allI impI ballI)
  fix lev index ptile dst si di
  assume "lev < numLevels pc" "index \<in> set (ParIter pc lev)"
    "GetParticles pc lev index = Some ptile"
  then have src: "tile_ok (NumRuntimeRealComps pc) (NumRuntimeIntComps pc) ptile"
    using source_okD(2) [OF assms(1)] by blast
  assume dst: "tile_ok (NumRuntimeRealComps pc) (Suc (NumRuntimeIntComps pc)) dst"
    and di: "di < numParticles dst"
  let ?f = "F lev index (int (NumRuntimeIntComps pc))"
  have e: "int (Suc (NumRuntimeIntComps pc)) - 1 = int (NumRuntimeIntComps pc)" by simp
  have ix: "FindBoundaryIntersection.m_index ?f = int (NumRuntimeIntComps pc)" by (rule F)
  note S = FindBoundaryIntersection_slot [OF src dst di ix, of lib si]
  show "tile_ok (NumRuntimeRealComps pc) (Suc (NumRuntimeIntComps pc))
          (FindBoundaryIntersection_call lib (F lev index (int (Suc (NumRuntimeIntComps pc)) - 1)) dst ptile si di) \<and>
        numParticles (FindBoundaryIntersection_call lib (F lev index (int (Suc (NumRuntimeIntComps pc)) - 1)) dst ptile si di) = numParticles dst \<and>
        particles (FindBoundaryIntersection_call lib (F lev index (int (Suc (NumRuntimeIntComps pc)) - 1)) dst ptile si di) =
          (particles dst)[di := moved_to_boundary lib ?f
                (timestamped (FindBoundaryIntersection.m_step ?f) (attributes ptile si))]"
    unfolding e using S by simp
qed

section \<open>The loops of the manager\<close>

lemma fold_species_nth:
  "i < length buffer \<Longrightarrow>
   fold (\<lambda>k buffer. if c k then buffer else buffer[k := G k (buffer ! k)]) [0..<n] buffer ! i =
     (if i < n \<and> \<not> c i then G i (buffer ! i) else buffer ! i)"
  and fold_species_length:
  "length (fold (\<lambda>k buffer. if c k then buffer else buffer[k := G k (buffer ! k)]) [0..<n] buffer)
     = length buffer"
proof -
  show len: "length (fold (\<lambda>k buffer. if c k then buffer else buffer[k := G k (buffer ! k)]) [0..<n] buffer)
     = length buffer" for n
    by (induction n) auto
  show "i < length buffer \<Longrightarrow>
   fold (\<lambda>k buffer. if c k then buffer else buffer[k := G k (buffer ! k)]) [0..<n] buffer ! i =
     (if i < n \<and> \<not> c i then G i (buffer ! i) else buffer ! i)"
  proof (induction n)
    case 0
    then show ?case by simp
  next
    case (Suc n)
    then show ?case using len [of n] by (auto simp: nth_list_update less_Suc_eq)
  qed
qed

lemma gather_face_eq:
  "gather_face warpx mypc idim iside pbb =
     pbb\<lparr>m_particle_containers :=
       (m_particle_containers pbb)[2 * idim + iside :=
          fold (\<lambda>i buffer.
                  if m_do_boundary_buffer pbb ! (2 * idim + iside) ! i = 0 then buffer
                  else buffer[i := face_slot warpx mypc idim iside i (buffer ! i)])
            [0..<numSpecies pbb] (m_particle_containers pbb ! (2 * idim + iside))]\<rparr>"
  unfolding gather_face_def Let_def face_slot_def by (rule refl)

lemma gather_eb_eq:
  "gather_eb warpx lib mypc distance_to_eb pbb =
     pbb\<lparr>m_particle_containers :=
       (m_particle_containers pbb)[length (m_particle_containers pbb) - 1 :=
          fold (\<lambda>i buffer.
                  if m_do_boundary_buffer pbb ! (AMREX_SPACEDIM * 2) ! i = 0 then buffer
                  else buffer[i := eb_slot warpx lib mypc distance_to_eb i (buffer ! i)])
            [0..<numSpecies pbb]
            (m_particle_containers pbb ! (length (m_particle_containers pbb) - 1))]\<rparr>"
  unfolding gather_eb_def Let_def eb_slot_def by (rule refl)

lemma gather_face_frame [simp]:
  "m_do_boundary_buffer (gather_face warpx mypc idim iside pbb) = m_do_boundary_buffer pbb"
  "m_do_any_boundary (gather_face warpx mypc idim iside pbb) = m_do_any_boundary pbb"
  "m_boundary_names (gather_face warpx mypc idim iside pbb) = m_boundary_names pbb"
  "m_species_names (gather_face warpx mypc idim iside pbb) = m_species_names pbb"
  "numSpecies (gather_face warpx mypc idim iside pbb) = numSpecies pbb"
  "length (m_particle_containers (gather_face warpx mypc idim iside pbb)) =
     length (m_particle_containers pbb)"
  by (simp_all add: gather_face_eq numSpecies_def)

lemma gather_eb_frame [simp]:
  "m_do_boundary_buffer (gather_eb warpx lib mypc deb pbb) = m_do_boundary_buffer pbb"
  "m_do_any_boundary (gather_eb warpx lib mypc deb pbb) = m_do_any_boundary pbb"
  "m_boundary_names (gather_eb warpx lib mypc deb pbb) = m_boundary_names pbb"
  "m_species_names (gather_eb warpx lib mypc deb pbb) = m_species_names pbb"
  "numSpecies (gather_eb warpx lib mypc deb pbb) = numSpecies pbb"
  "length (m_particle_containers (gather_eb warpx lib mypc deb pbb)) =
     length (m_particle_containers pbb)"
  by (simp_all add: gather_eb_eq numSpecies_def)

lemma nth_list_update_length:
  "length (xs[k := ys] ! b) = (if b = k \<and> k < length xs then length ys else length (xs ! b))"
  by (cases "k < length xs") (auto simp: nth_list_update list_update_beyond)

lemma gather_face_row_length [simp]:
  "length (m_particle_containers (gather_face warpx mypc idim iside pbb) ! b) =
   length (m_particle_containers pbb ! b)"
  by (simp add: gather_face_eq nth_list_update_length
      fold_species_length [where c = "\<lambda>i. m_do_boundary_buffer pbb ! (2 * idim + iside) ! i = 0"
        and G = "face_slot warpx mypc idim iside"])

lemma gather_eb_row_length [simp]:
  "length (m_particle_containers (gather_eb warpx lib mypc deb pbb) ! b) =
   length (m_particle_containers pbb ! b)"
  by (simp add: gather_eb_eq nth_list_update_length
      fold_species_length [where c = "\<lambda>i. m_do_boundary_buffer pbb ! (AMREX_SPACEDIM * 2) ! i = 0"
        and G = "eb_slot warpx lib mypc deb"])

lemma gather_face_slot:
  assumes "b < length (m_particle_containers pbb)" "i < length (m_particle_containers pbb ! b)"
  shows "m_particle_containers (gather_face warpx mypc idim iside pbb) ! b ! i =
     (if b = 2 * idim + iside \<and> i < numSpecies pbb \<and> m_do_boundary_buffer pbb ! b ! i \<noteq> 0
      then face_slot warpx mypc idim iside i (m_particle_containers pbb ! b ! i)
      else m_particle_containers pbb ! b ! i)"
    and "length (m_particle_containers (gather_face warpx mypc idim iside pbb) ! b) =
         length (m_particle_containers pbb ! b)"
proof -
  note n = fold_species_nth [where c = "\<lambda>i. m_do_boundary_buffer pbb ! (2 * idim + iside) ! i = 0"
      and G = "face_slot warpx mypc idim iside"]
  note l = fold_species_length [where c = "\<lambda>i. m_do_boundary_buffer pbb ! (2 * idim + iside) ! i = 0"
      and G = "face_slot warpx mypc idim iside"]
  show "m_particle_containers (gather_face warpx mypc idim iside pbb) ! b ! i =
     (if b = 2 * idim + iside \<and> i < numSpecies pbb \<and> m_do_boundary_buffer pbb ! b ! i \<noteq> 0
      then face_slot warpx mypc idim iside i (m_particle_containers pbb ! b ! i)
      else m_particle_containers pbb ! b ! i)"
  proof (cases "b = 2 * idim + iside")
    case True
    with assms show ?thesis by (simp add: gather_face_eq n)
  next
    case False
    with assms show ?thesis by (simp add: gather_face_eq)
  qed
  show "length (m_particle_containers (gather_face warpx mypc idim iside pbb) ! b) =
         length (m_particle_containers pbb ! b)"
  proof (cases "b = 2 * idim + iside")
    case True
    with assms show ?thesis by (simp add: gather_face_eq l)
  next
    case False
    with assms show ?thesis by (simp add: gather_face_eq)
  qed
qed

lemma gather_eb_slot:
  assumes "b < length (m_particle_containers pbb)" "i < length (m_particle_containers pbb ! b)"
  shows "m_particle_containers (gather_eb warpx lib mypc deb pbb) ! b ! i =
     (if b = length (m_particle_containers pbb) - 1 \<and> i < numSpecies pbb \<and>
         m_do_boundary_buffer pbb ! (AMREX_SPACEDIM * 2) ! i \<noteq> 0
      then eb_slot warpx lib mypc deb i (m_particle_containers pbb ! b ! i)
      else m_particle_containers pbb ! b ! i)"
    and "length (m_particle_containers (gather_eb warpx lib mypc deb pbb) ! b) =
         length (m_particle_containers pbb ! b)"
proof -
  note n = fold_species_nth [where c = "\<lambda>i. m_do_boundary_buffer pbb ! (AMREX_SPACEDIM * 2) ! i = 0"
      and G = "eb_slot warpx lib mypc deb"]
  note l = fold_species_length [where c = "\<lambda>i. m_do_boundary_buffer pbb ! (AMREX_SPACEDIM * 2) ! i = 0"
      and G = "eb_slot warpx lib mypc deb"]
  show "m_particle_containers (gather_eb warpx lib mypc deb pbb) ! b ! i =
     (if b = length (m_particle_containers pbb) - 1 \<and> i < numSpecies pbb \<and>
         m_do_boundary_buffer pbb ! (AMREX_SPACEDIM * 2) ! i \<noteq> 0
      then eb_slot warpx lib mypc deb i (m_particle_containers pbb ! b ! i)
      else m_particle_containers pbb ! b ! i)"
  proof (cases "b = length (m_particle_containers pbb) - 1")
    case True
    with assms show ?thesis by (simp add: gather_eb_eq n)
  next
    case False
    with assms show ?thesis by (simp add: gather_eb_eq)
  qed
  show "length (m_particle_containers (gather_eb warpx lib mypc deb pbb) ! b) =
         length (m_particle_containers pbb ! b)"
  proof (cases "b = length (m_particle_containers pbb) - 1")
    case True
    with assms show ?thesis by (simp add: gather_eb_eq l)
  next
    case False
    with assms show ?thesis by (simp add: gather_eb_eq)
  qed
qed

lemma gather_dim_frame [simp]:
  "m_do_boundary_buffer (gather_dim warpx mypc idim pbb) = m_do_boundary_buffer pbb"
  "m_do_any_boundary (gather_dim warpx mypc idim pbb) = m_do_any_boundary pbb"
  "m_boundary_names (gather_dim warpx mypc idim pbb) = m_boundary_names pbb"
  "m_species_names (gather_dim warpx mypc idim pbb) = m_species_names pbb"
  "numSpecies (gather_dim warpx mypc idim pbb) = numSpecies pbb"
  "length (m_particle_containers (gather_dim warpx mypc idim pbb)) =
     length (m_particle_containers pbb)"
  by (simp_all add: gather_dim_def numeral_2_eq_2)

lemma gather_dim_row_length [simp]:
  "length (m_particle_containers (gather_dim warpx mypc idim pbb) ! b) =
   length (m_particle_containers pbb ! b)"
  by (simp add: gather_dim_def numeral_2_eq_2)

lemma gather_dims_row_length [simp]:
  "length (m_particle_containers (fold (gather_dim warpx mypc) [0..<n] pbb) ! b) =
   length (m_particle_containers pbb ! b)"
  by (induction n) simp_all

lemma gather_dim_slot:
  assumes "b < length (m_particle_containers pbb)" "i < length (m_particle_containers pbb ! b)"
  shows "m_particle_containers (gather_dim warpx mypc idim pbb) ! b ! i =
     (if \<not> isPeriodic (Geom warpx 0) idim \<and> b div 2 = idim \<and> i < numSpecies pbb \<and>
         m_do_boundary_buffer pbb ! b ! i \<noteq> 0
      then face_slot warpx mypc idim (b mod 2) i (m_particle_containers pbb ! b ! i)
      else m_particle_containers pbb ! b ! i)"
    and "length (m_particle_containers (gather_dim warpx mypc idim pbb) ! b) =
         length (m_particle_containers pbb ! b)"
proof -
  let ?p0 = "gather_face warpx mypc idim 0 pbb"
  have b0: "b < length (m_particle_containers ?p0)" using assms(1) by simp
  have i0: "i < length (m_particle_containers ?p0 ! b)"
    using assms by (simp add: gather_face_slot(2))
  have eq: "fold (\<lambda>iside. gather_face warpx mypc idim iside) [0..<2] pbb =
            gather_face warpx mypc idim 1 ?p0"
    by (simp add: numeral_2_eq_2)
  have S0: "m_particle_containers ?p0 ! b ! i =
     (if b = 2 * idim \<and> i < numSpecies pbb \<and> m_do_boundary_buffer pbb ! b ! i \<noteq> 0
      then face_slot warpx mypc idim 0 i (m_particle_containers pbb ! b ! i)
      else m_particle_containers pbb ! b ! i)"
    using gather_face_slot(1) [OF assms, of warpx mypc idim 0] by simp
  have S1: "m_particle_containers (gather_face warpx mypc idim 1 ?p0) ! b ! i =
     (if b = 2 * idim + 1 \<and> i < numSpecies pbb \<and> m_do_boundary_buffer pbb ! b ! i \<noteq> 0
      then face_slot warpx mypc idim 1 i (m_particle_containers ?p0 ! b ! i)
      else m_particle_containers ?p0 ! b ! i)"
    using gather_face_slot(1) [OF b0 i0, of warpx mypc idim 1] by simp
  show "m_particle_containers (gather_dim warpx mypc idim pbb) ! b ! i =
     (if \<not> isPeriodic (Geom warpx 0) idim \<and> b div 2 = idim \<and> i < numSpecies pbb \<and>
         m_do_boundary_buffer pbb ! b ! i \<noteq> 0
      then face_slot warpx mypc idim (b mod 2) i (m_particle_containers pbb ! b ! i)
      else m_particle_containers pbb ! b ! i)"
  proof (cases "isPeriodic (Geom warpx 0) idim")
    case True
    then show ?thesis by (simp add: gather_dim_def)
  next
    case False
    have gd: "gather_dim warpx mypc idim pbb = gather_face warpx mypc idim 1 ?p0"
      using False by (simp add: gather_dim_def eq)
    have "b = 2 * idim \<or> b = 2 * idim + 1 \<or> b div 2 \<noteq> idim" by presburger
    then consider (lo) "b = 2 * idim" | (hi) "b = 2 * idim + 1" | (other) "b div 2 \<noteq> idim"
      by blast
    then show ?thesis
    proof cases
      case lo
      then have "b div 2 = idim" "b mod 2 = 0" "b \<noteq> 2 * idim + 1" by simp_all
      then show ?thesis using False lo unfolding gd S1 S0 by simp
    next
      case hi
      then have "b div 2 = idim" "b mod 2 = 1" "b \<noteq> 2 * idim" by simp_all
      then show ?thesis using False hi unfolding gd S1 S0 by simp
    next
      case other
      then have "b \<noteq> 2 * idim" "b \<noteq> 2 * idim + 1" by auto
      then show ?thesis using False other unfolding gd S1 S0 by simp
    qed
  qed
  show "length (m_particle_containers (gather_dim warpx mypc idim pbb) ! b) =
         length (m_particle_containers pbb ! b)"
    using assms by (simp add: gather_dim_def eq gather_face_slot(2) [OF b0 i0]
        gather_face_slot(2))
qed

lemma gather_dims_frame [simp]:
  "m_do_boundary_buffer (fold (gather_dim warpx mypc) [0..<n] pbb) = m_do_boundary_buffer pbb"
  "m_do_any_boundary (fold (gather_dim warpx mypc) [0..<n] pbb) = m_do_any_boundary pbb"
  "m_boundary_names (fold (gather_dim warpx mypc) [0..<n] pbb) = m_boundary_names pbb"
  "m_species_names (fold (gather_dim warpx mypc) [0..<n] pbb) = m_species_names pbb"
  "numSpecies (fold (gather_dim warpx mypc) [0..<n] pbb) = numSpecies pbb"
  "length (m_particle_containers (fold (gather_dim warpx mypc) [0..<n] pbb)) =
     length (m_particle_containers pbb)"
  by (induction n; simp)+

lemma gather_dims_slot:
  assumes "b < length (m_particle_containers pbb)" "i < length (m_particle_containers pbb ! b)"
  shows "length (m_particle_containers (fold (gather_dim warpx mypc) [0..<n] pbb) ! b) =
         length (m_particle_containers pbb ! b) \<and>
     m_particle_containers (fold (gather_dim warpx mypc) [0..<n] pbb) ! b ! i =
     (if b div 2 < n \<and> \<not> isPeriodic (Geom warpx 0) (b div 2) \<and> i < numSpecies pbb \<and>
         m_do_boundary_buffer pbb ! b ! i \<noteq> 0
      then face_slot warpx mypc (b div 2) (b mod 2) i (m_particle_containers pbb ! b ! i)
      else m_particle_containers pbb ! b ! i)"
proof (induction n)
  case 0
  then show ?case by simp
next
  case (Suc n)
  let ?p = "fold (gather_dim warpx mypc) [0..<n] pbb"
  have b: "b < length (m_particle_containers ?p)" using assms(1) by simp
  have i: "i < length (m_particle_containers ?p ! b)" using Suc assms(2) by simp
  note D = gather_dim_slot [OF b i, of warpx mypc n]
  show ?case
    using Suc D by (auto simp: less_Suc_eq)
qed

lemma gatherParticles_eq:
  "fst (gatherParticles warpx lib pbb mypc deb) =
     gather_eb warpx lib mypc deb (fold (gather_dim warpx mypc) [0..<AMREX_SPACEDIM] pbb)"
  unfolding gatherParticles_def Let_def gather_dim_def [abs_def] by simp

lemma gatherParticles_frame [simp]:
  "m_do_boundary_buffer (fst (gatherParticles warpx lib pbb mypc deb)) = m_do_boundary_buffer pbb"
  "m_do_any_boundary (fst (gatherParticles warpx lib pbb mypc deb)) = m_do_any_boundary pbb"
  "m_boundary_names (fst (gatherParticles warpx lib pbb mypc deb)) = m_boundary_names pbb"
  "m_species_names (fst (gatherParticles warpx lib pbb mypc deb)) = m_species_names pbb"
  "numSpecies (fst (gatherParticles warpx lib pbb mypc deb)) = numSpecies pbb"
  "length (m_particle_containers (fst (gatherParticles warpx lib pbb mypc deb))) =
     length (m_particle_containers pbb)"
  by (simp_all add: gatherParticles_eq)

lemma gatherParticles_row_length [simp]:
  "length (m_particle_containers (fst (gatherParticles warpx lib pbb mypc deb)) ! b) =
   length (m_particle_containers pbb ! b)"
  by (simp add: gatherParticles_eq)

lemma gatherParticles_slot:
  assumes "length (m_particle_containers pbb) = numBoundaries"
    and "b < numBoundaries" "i < length (m_particle_containers pbb ! b)"
  shows "length (m_particle_containers (fst (gatherParticles warpx lib pbb mypc deb)) ! b) =
         length (m_particle_containers pbb ! b)"
    and "m_particle_containers (fst (gatherParticles warpx lib pbb mypc deb)) ! b ! i =
     (if i < numSpecies pbb \<and> m_do_boundary_buffer pbb ! b ! i \<noteq> 0
      then (if b = AMREX_SPACEDIM * 2
            then eb_slot warpx lib mypc deb i (m_particle_containers pbb ! b ! i)
            else if isPeriodic (Geom warpx 0) (b div 2) then m_particle_containers pbb ! b ! i
            else face_slot warpx mypc (b div 2) (b mod 2) i (m_particle_containers pbb ! b ! i))
      else m_particle_containers pbb ! b ! i)"
proof -
  let ?p = "fold (gather_dim warpx mypc) [0..<AMREX_SPACEDIM] pbb"
  have b0: "b < length (m_particle_containers pbb)" using assms by simp
  note D = gather_dims_slot [OF b0 assms(3), of warpx mypc AMREX_SPACEDIM]
  have b1: "b < length (m_particle_containers ?p)" using b0 by simp
  have i1: "i < length (m_particle_containers ?p ! b)" using D assms(3) by simp
  note E = gather_eb_slot [OF b1 i1, of warpx lib mypc deb]
  have n: "length (m_particle_containers pbb) - 1 = AMREX_SPACEDIM * 2"
    using assms(1) by (simp add: numBoundaries_def)
  have d: "b div 2 < AMREX_SPACEDIM \<longleftrightarrow> b \<noteq> AMREX_SPACEDIM * 2"
    using assms(2) by (auto simp: numBoundaries_def AMREX_SPACEDIM_def)
  show "length (m_particle_containers (fst (gatherParticles warpx lib pbb mypc deb)) ! b) =
         length (m_particle_containers pbb ! b)"
    using E(2) D by (simp add: gatherParticles_eq)
  show "m_particle_containers (fst (gatherParticles warpx lib pbb mypc deb)) ! b ! i =
     (if i < numSpecies pbb \<and> m_do_boundary_buffer pbb ! b ! i \<noteq> 0
      then (if b = AMREX_SPACEDIM * 2
            then eb_slot warpx lib mypc deb i (m_particle_containers pbb ! b ! i)
            else if isPeriodic (Geom warpx 0) (b div 2) then m_particle_containers pbb ! b ! i
            else face_slot warpx mypc (b div 2) (b mod 2) i (m_particle_containers pbb ! b ! i))
      else m_particle_containers pbb ! b ! i)"
  proof (cases "b = AMREX_SPACEDIM * 2")
    case True
    then have "\<not> b div 2 < AMREX_SPACEDIM" using d by simp
    then have old: "m_particle_containers ?p ! b ! i = m_particle_containers pbb ! b ! i"
      using D by simp
    show ?thesis
      unfolding gatherParticles_eq E(1) old using True n by simp
  next
    case False
    then have lt: "b div 2 < AMREX_SPACEDIM" using d by simp
    show ?thesis
      unfolding gatherParticles_eq E(1) using False lt D n by simp
  qed
qed

lemma pbb_okD:
  assumes "pbb_ok pbb mypc"
  shows "length (m_particle_containers pbb) = numBoundaries"
    and "b < numBoundaries \<Longrightarrow> length (m_particle_containers pbb ! b) = numSpecies pbb"
    and "i < numSpecies pbb \<Longrightarrow> source_ok (mypc ! i)"
    and "b < numBoundaries \<Longrightarrow> i < numSpecies pbb \<Longrightarrow>
         slot_ok (mypc ! i) (m_particle_containers pbb ! b ! i)"
  using assms by (auto simp: pbb_ok_def pbb_sizes_def list_all_length)

lemma matched_face:
  "matched (IsOutsideDomainBoundary_call
              \<lparr>IsOutsideDomainBoundary.m_plo = plo, m_phi = phi, m_idim = d, m_iside = int iside\<rparr>)
     (\<lambda>ptile si. timestamped step (attributes ptile si)) pc lev index =
   (case GetParticles pc lev index of
      None \<Rightarrow> []
    | Some ptile \<Rightarrow>
        map (timestamped step)
          (filter (\<lambda>a. if iside = 0 then a_rdata a ! d < plo ! d else phi ! d \<le> a_rdata a ! d)
             (particles ptile)))"
  by (auto simp: matched_def particles_def filter_map comp_def IsOutsideDomainBoundary_call_def
      Let_def pos_def getSuperParticle_def attributes_def split: option.splits
      intro!: arg_cong [where f = "map _"] filter_cong)

lemma face_slot_effect:
  assumes "source_ok pc" "slot_ok pc slot" "mypc ! i = pc"
  shows "isDefined (face_slot warpx mypc d iside i slot)"
    and "slot_ok pc (face_slot warpx mypc d iside i slot)"
    and "slot_buffered (face_slot warpx mypc d iside i slot) lev index =
         slot_buffered slot lev index @
         (if lev < numLevels pc \<and> index \<in> set (ParIter pc lev)
          then case GetParticles pc lev index of
                 None \<Rightarrow> []
               | Some ptile \<Rightarrow>
                   map (timestamped (getistep warpx 0))
                     (filter (\<lambda>a. if iside = 0
                                   then a_rdata a ! d < ProbLoArray (Geom warpx 0) ! d
                                   else ProbHiArray (Geom warpx 0) ! d \<le> a_rdata a ! d)
                        (particles ptile))
          else [])"
proof -
  have d: "\<forall>lev < numLevels pc. distinct (ParIter pc lev)"
    using source_okD(1) [OF assms(1)] by blast
  note E = gather_species_effect [OF transforms_ok_CopyAndTimestamp [OF assms(1)] d assms(2)]
  show "isDefined (face_slot warpx mypc d iside i slot)"
    unfolding face_slot_def assms(3) by (rule E(1))
  show "slot_ok pc (face_slot warpx mypc d iside i slot)"
    unfolding face_slot_def assms(3) by (rule E(2))
  show "slot_buffered (face_slot warpx mypc d iside i slot) lev index =
         slot_buffered slot lev index @
         (if lev < numLevels pc \<and> index \<in> set (ParIter pc lev)
          then case GetParticles pc lev index of
                 None \<Rightarrow> []
               | Some ptile \<Rightarrow>
                   map (timestamped (getistep warpx 0))
                     (filter (\<lambda>a. if iside = 0
                                   then a_rdata a ! d < ProbLoArray (Geom warpx 0) ! d
                                   else ProbHiArray (Geom warpx 0) ! d \<le> a_rdata a ! d)
                        (particles ptile))
          else [])"
    unfolding face_slot_def assms(3) E(3) matched_face by simp
qed

lemma eb_slot_effect:
  assumes "source_ok pc" "slot_ok pc slot" "mypc ! i = pc"
  shows "isDefined (eb_slot warpx lib mypc deb i slot)"
    and "slot_ok pc (eb_slot warpx lib mypc deb i slot)"
    and "slot_buffered (eb_slot warpx lib mypc deb i slot) lev index =
         slot_buffered slot lev index @
         (if lev < numLevels pc \<and> index \<in> set (ParIter pc lev)
          then eb_matched warpx lib deb pc lev index else [])"
proof -
  have d: "\<forall>lev < numLevels pc. distinct (ParIter pc lev)"
    using source_okD(1) [OF assms(1)] by blast
  have F: "\<And>lev index k. FindBoundaryIntersection.m_index (eb_functor warpx deb lev index k) = k"
    by (simp add: eb_functor_def)
  note T = transforms_ok_FindBoundaryIntersection [where F = "eb_functor warpx deb" and lib = lib,
      OF assms(1) F]
  note E = gather_species_effect [OF T d assms(2)]
  have eq: "eb_slot warpx lib mypc deb i slot =
      gather_species
       (\<lambda>lev index.
          eb_predicate lib (deb lev index)
            (InvCellSizeArray (Geom warpx lev)) (ProbLoArray (Geom warpx 0)))
       (\<lambda>lev index timestamp_index.
          FindBoundaryIntersection_call lib (eb_functor warpx deb lev index timestamp_index))
       pc slot"
    unfolding eb_slot_def eb_functor_def assms(3) by (rule refl)
  have st: "FindBoundaryIntersection.m_step (eb_functor warpx deb lev index k) = getistep warpx 0"
    for lev index k by (simp add: eb_functor_def)
  show "isDefined (eb_slot warpx lib mypc deb i slot)"
    unfolding eq by (rule E(1))
  show "slot_ok pc (eb_slot warpx lib mypc deb i slot)"
    unfolding eq by (rule E(2))
  show "slot_buffered (eb_slot warpx lib mypc deb i slot) lev index =
         slot_buffered slot lev index @
         (if lev < numLevels pc \<and> index \<in> set (ParIter pc lev)
          then eb_matched warpx lib deb pc lev index else [])"
    unfolding eq E(3) eb_matched_def st by (rule refl)
qed

lemma gatherParticles_effect:
  assumes ok: "pbb_ok pbb mypc" and b: "b < numBoundaries" and i: "i < numSpecies pbb"
  shows "slot_ok (mypc ! i) (m_particle_containers (fst (gatherParticles warpx lib pbb mypc deb)) ! b ! i)"
    and "buffered_at (fst (gatherParticles warpx lib pbb mypc deb)) b i lev index =
         buffered_at pbb b i lev index @ appended warpx lib pbb mypc deb b i lev index"
    and "isDefined (m_particle_containers (fst (gatherParticles warpx lib pbb mypc deb)) ! b ! i) =
         (isDefined (m_particle_containers pbb ! b ! i) \<or>
          m_do_boundary_buffer pbb ! b ! i \<noteq> 0 \<and>
          (b = AMREX_SPACEDIM * 2 \<or> \<not> isPeriodic (Geom warpx 0) (b div 2)))"
proof -
  let ?old = "m_particle_containers pbb ! b ! i"
  have len: "length (m_particle_containers pbb) = numBoundaries" using pbb_okD(1) [OF ok] .
  have il: "i < length (m_particle_containers pbb ! b)" using pbb_okD(2) [OF ok b] i by simp
  note S = gatherParticles_slot(2) [OF len b il, of warpx lib mypc deb]
  have src: "source_ok (mypc ! i)" using pbb_okD(3) [OF ok i] .
  have so: "slot_ok (mypc ! i) ?old" using pbb_okD(4) [OF ok b i] .
  note F = face_slot_effect(1,2) [OF src so refl, where warpx = warpx and d = "b div 2"
      and iside = "b mod 2"]
    face_slot_effect(3) [OF src so refl, where warpx = warpx and d = "b div 2"
      and iside = "b mod 2" and lev = lev and index = index]
  note E = eb_slot_effect(1,2) [OF src so refl, where warpx = warpx and lib = lib and deb = deb]
    eb_slot_effect(3) [OF src so refl, where warpx = warpx and lib = lib and deb = deb
      and lev = lev and index = index]
  show "slot_ok (mypc ! i) (m_particle_containers (fst (gatherParticles warpx lib pbb mypc deb)) ! b ! i)"
    unfolding S using so F(2) E(2) by auto
  show "buffered_at (fst (gatherParticles warpx lib pbb mypc deb)) b i lev index =
         buffered_at pbb b i lev index @ appended warpx lib pbb mypc deb b i lev index"
  proof (cases "m_do_boundary_buffer pbb ! b ! i = 0")
    case True
    then show ?thesis unfolding buffered_at_def S appended_def by simp
  next
    case False
    show ?thesis
    proof (cases "b = AMREX_SPACEDIM * 2")
      case True
      then show ?thesis
        using i False E(3) unfolding buffered_at_def S appended_def by simp
    next
      case nb: False
      then show ?thesis
        using i False F(3) unfolding buffered_at_def S appended_def by simp
    qed
  qed
  show "isDefined (m_particle_containers (fst (gatherParticles warpx lib pbb mypc deb)) ! b ! i) =
         (isDefined (m_particle_containers pbb ! b ! i) \<or>
          m_do_boundary_buffer pbb ! b ! i \<noteq> 0 \<and>
          (b = AMREX_SPACEDIM * 2 \<or> \<not> isPeriodic (Geom warpx 0) (b div 2)))"
    unfolding S using i F(1) E(1) by auto
qed


lemma init_names:
  "m_species_names (fst (ParticleBoundaryBuffer_init initialized names query)) =
     (if initialized then [] else names)"
  "snd (ParticleBoundaryBuffer_init initialized names query) = True"
  by (simp_all add: ParticleBoundaryBuffer_init_def getSpeciesNames_def Let_def)


lemma init_all_undefined:
  "list_all (list_all (\<lambda>slot. \<not> isDefined slot))
     (m_particle_containers (fst (ParticleBoundaryBuffer_init initialized names query)))"
  by (simp add: ParticleBoundaryBuffer_init_def getSpeciesNames_def Let_def list_all_iff
      isDefined_def)

lemma init_undefined:
  "b < numBoundaries \<Longrightarrow>
   i < numSpecies (fst (ParticleBoundaryBuffer_init initialized names query)) \<Longrightarrow>
   m_particle_containers (fst (ParticleBoundaryBuffer_init initialized names query)) ! b ! i = None"
  by (simp add: ParticleBoundaryBuffer_init_def getSpeciesNames_def Let_def numSpecies_def
      split: if_splits)


section \<open>Clearing and redistributing\<close>

lemma row_map_nth:
  "length (row_map f ns row) = length row"
  "i < length row \<Longrightarrow>
   row_map f ns row ! i = (if i < ns then map_option f (row ! i) else row ! i)"
proof -
  have body: "(\<lambda>ispecies buffer.
             case buffer ! ispecies of
               Some species_buffer \<Rightarrow> buffer[ispecies := Some (f species_buffer)]
             | None \<Rightarrow> buffer) =
        (\<lambda>k buffer. if False then buffer else buffer[k := map_option f (buffer ! k)])"
    by (auto simp: fun_eq_iff split: option.splits) (metis list_update_id)
  show "length (row_map f ns row) = length row"
    unfolding row_map_def body by (rule fold_species_length)
  show "i < length row \<Longrightarrow>
   row_map f ns row ! i = (if i < ns then map_option f (row ! i) else row ! i)"
    unfolding row_map_def body
    using fold_species_nth [where c = "\<lambda>_. False" and G = "\<lambda>k. map_option f", of i row ns]
    by simp
qed

lemma boundary_map_frame [simp]:
  "m_do_boundary_buffer (boundary_map f k pbb) = m_do_boundary_buffer pbb"
  "m_do_any_boundary (boundary_map f k pbb) = m_do_any_boundary pbb"
  "m_boundary_names (boundary_map f k pbb) = m_boundary_names pbb"
  "m_species_names (boundary_map f k pbb) = m_species_names pbb"
  "numSpecies (boundary_map f k pbb) = numSpecies pbb"
  "length (m_particle_containers (boundary_map f k pbb)) = length (m_particle_containers pbb)"
  "length (m_particle_containers (boundary_map f k pbb) ! b) =
     length (m_particle_containers pbb ! b)"
  by (simp_all add: boundary_map_def numSpecies_def nth_list_update_length row_map_nth(1))

lemma boundary_map_slot:
  assumes "b < length (m_particle_containers pbb)" "i < length (m_particle_containers pbb ! b)"
  shows "m_particle_containers (boundary_map f k pbb) ! b ! i =
     (if b = k \<and> i < numSpecies pbb then map_option f (m_particle_containers pbb ! b ! i)
      else m_particle_containers pbb ! b ! i)"
  using assms by (cases "b = k") (simp_all add: boundary_map_def row_map_nth(2))

lemma boundaries_map_frame [simp]:
  "m_do_boundary_buffer (fold (boundary_map f) [0..<n] pbb) = m_do_boundary_buffer pbb"
  "m_do_any_boundary (fold (boundary_map f) [0..<n] pbb) = m_do_any_boundary pbb"
  "m_boundary_names (fold (boundary_map f) [0..<n] pbb) = m_boundary_names pbb"
  "m_species_names (fold (boundary_map f) [0..<n] pbb) = m_species_names pbb"
  "numSpecies (fold (boundary_map f) [0..<n] pbb) = numSpecies pbb"
  "length (m_particle_containers (fold (boundary_map f) [0..<n] pbb)) =
     length (m_particle_containers pbb)"
  "length (m_particle_containers (fold (boundary_map f) [0..<n] pbb) ! b) =
     length (m_particle_containers pbb ! b)"
  by (induction n; simp)+

lemma boundaries_map_slot:
  assumes "b < length (m_particle_containers pbb)" "i < length (m_particle_containers pbb ! b)"
  shows "m_particle_containers (fold (boundary_map f) [0..<n] pbb) ! b ! i =
     (if b < n \<and> i < numSpecies pbb then map_option f (m_particle_containers pbb ! b ! i)
      else m_particle_containers pbb ! b ! i)"
proof (induction n)
  case 0
  then show ?case by simp
next
  case (Suc n)
  let ?p = "fold (boundary_map f) [0..<n] pbb"
  have b: "b < length (m_particle_containers ?p)" using assms(1) by simp
  have i: "i < length (m_particle_containers ?p ! b)" using assms(2) by simp
  show ?case
    using Suc boundary_map_slot [OF b i, of f n] by (auto simp: less_Suc_eq)
qed

lemma clearParticles_boundary_eq:
  "clearParticles_boundary = boundary_map clearParticles_container"
  unfolding clearParticles_boundary_def boundary_map_def row_map_def Let_def fun_eq_iff by simp

lemma clearParticles_eq:
  "clearParticles pbb = fold (boundary_map clearParticles_container) [0..<numBoundaries] pbb"
  by (simp add: clearParticles_def clearParticles_boundary_eq)

lemma redistribute_eq:
  "redistribute pbb =
     fold (boundary_map (\<lambda>c. Redistribute c 0 (- 1) 0 0 False)) [0..<numBoundaries] pbb"
  unfolding redistribute_def boundary_map_def [abs_def] row_map_def Let_def by (rule refl)

lemma pbb_eqI:
  assumes "m_do_boundary_buffer p = m_do_boundary_buffer q"
    "m_do_any_boundary p = m_do_any_boundary q" "m_boundary_names p = m_boundary_names q"
    "m_species_names p = m_species_names q"
    "length (m_particle_containers p) = length (m_particle_containers q)"
    "\<And>b. b < length (m_particle_containers q) \<Longrightarrow>
       length (m_particle_containers p ! b) = length (m_particle_containers q ! b)"
    "\<And>b i. b < length (m_particle_containers q) \<Longrightarrow> i < length (m_particle_containers q ! b) \<Longrightarrow>
       m_particle_containers p ! b ! i = m_particle_containers q ! b ! i"
  shows "p = (q :: ParticleBoundaryBuffer)"
proof -
  have "m_particle_containers p = m_particle_containers q"
    using assms(5,6,7) by (simp add: list_eq_iff_nth_eq)
  then show ?thesis using assms(1-4) by simp
qed

lemma clearParticles_frame [simp]:
  "m_do_boundary_buffer (clearParticles pbb) = m_do_boundary_buffer pbb"
  "m_do_any_boundary (clearParticles pbb) = m_do_any_boundary pbb"
  "m_boundary_names (clearParticles pbb) = m_boundary_names pbb"
  "m_species_names (clearParticles pbb) = m_species_names pbb"
  "numSpecies (clearParticles pbb) = numSpecies pbb"
  "length (m_particle_containers (clearParticles pbb)) = length (m_particle_containers pbb)"
  "length (m_particle_containers (clearParticles pbb) ! b) =
     length (m_particle_containers pbb ! b)"
  by (simp_all add: clearParticles_eq)

lemma clearParticles_slot:
  assumes "b < length (m_particle_containers pbb)" "i < length (m_particle_containers pbb ! b)"
  shows "m_particle_containers (clearParticles pbb) ! b ! i =
     (if b < numBoundaries \<and> i < numSpecies pbb
      then map_option clearParticles_container (m_particle_containers pbb ! b ! i)
      else m_particle_containers pbb ! b ! i)"
  unfolding clearParticles_eq by (rule boundaries_map_slot [OF assms])

lemma clearParticles_idem: "clearParticles (clearParticles pbb) = clearParticles pbb"
proof (rule pbb_eqI)
  fix b i
  assume "b < length (m_particle_containers (clearParticles pbb))"
    and "i < length (m_particle_containers (clearParticles pbb) ! b)"
  then have b: "b < length (m_particle_containers pbb)"
    and i: "i < length (m_particle_containers pbb ! b)"
    by simp_all
  have b': "b < length (m_particle_containers (clearParticles pbb))"
    and i': "i < length (m_particle_containers (clearParticles pbb) ! b)"
    using b i by simp_all
  have idem: "map_option clearParticles_container (map_option clearParticles_container x) =
      map_option clearParticles_container x" for x
    by (cases x) (simp_all add: clearParticles_container_def)
  show "m_particle_containers (clearParticles (clearParticles pbb)) ! b ! i =
        m_particle_containers (clearParticles pbb) ! b ! i"
    unfolding clearParticles_slot [OF b' i'] clearParticles_slot [OF b i]
    by (simp add: idem)
qed simp_all

lemma redistribute_id: "redistribute pbb = pbb"
proof (rule pbb_eqI)
  fix b i
  assume b: "b < length (m_particle_containers pbb)"
    and i: "i < length (m_particle_containers pbb ! b)"
  have "map_option (\<lambda>c. Redistribute c 0 (- 1) 0 0 False) x = x" for x
    by (cases x) (simp_all add: Redistribute_def)
  then show "m_particle_containers (redistribute pbb) ! b ! i = m_particle_containers pbb ! b ! i"
    using boundaries_map_slot [OF b i, of "\<lambda>c. Redistribute c 0 (- 1) 0 0 False" numBoundaries]
    by (simp add: redistribute_eq)
qed (simp_all add: redistribute_eq)


section \<open>The small simulation is well formed\<close>


lemma ex_pc_ok: "source_ok ex_pc"
  by (simp add: source_ok_def ex_pc_def GetParticles_def tile_ok_def ex_tile_def NAR_def
      PIdx_nattribs_def numParticles_def)

lemma ex_pc_comps: "NumRuntimeRealComps ex_pc = 0" "NumRuntimeIntComps ex_pc = 1"
  by (simp_all add: ex_pc_def)

lemma ex_pbb_ok: "pbb_ok ex_pbb [ex_pc]"
  by (simp add: pbb_ok_def pbb_sizes_def ex_pbb_def ParticleBoundaryBuffer_init_def getSpeciesNames_def Let_def
      numBoundaries_def AMREX_SPACEDIM_def numSpecies_def ex_pc_ok slot_ok_def upt_rec list_all_iff
      boundary_names_def ex_query_def)

lemma ex_pbb_facts:
  "numSpecies ex_pbb = 1" "m_do_boundary_buffer ex_pbb ! 0 ! 0 = 1"
  "m_do_boundary_buffer ex_pbb ! 1 ! 0 = 0" "m_particle_containers ex_pbb ! 0 ! 0 = None"
  "m_particle_containers ex_pbb ! 1 ! 0 = None"
  "m_do_boundary_buffer ex_pbb ! Suc 0 ! 0 = 0" "m_particle_containers ex_pbb ! Suc 0 ! 0 = None"
  by (simp_all add: ex_pbb_def ParticleBoundaryBuffer_init_def getSpeciesNames_def Let_def numSpecies_def
      numBoundaries_def AMREX_SPACEDIM_def upt_rec boundary_names_def ex_query_def)

lemma ex_filled_ok: "pbb_ok ex_filled [ex_pc]"
  by (simp add: pbb_ok_def pbb_sizes_def ex_filled_def numBoundaries_def AMREX_SPACEDIM_def
      numSpecies_def ex_pc_ok slot_ok_def container_ok_def tile_ok_def ex_buffer_tile_def
      ex_pc_comps NAR_def PIdx_nattribs_def numParticles_def upt_rec)

section \<open>The crossing point\<close>





section \<open>The runtime integer attributes\<close>







section \<open>The small simulation, gathered\<close>











section \<open>The domain-face classifier\<close>

text \<open>
  C4. The classifier is a function of the particle's position, the dimension, the side and
  the bounds alone; it returns 1 or 0, and it returns 1 exactly when the coordinate along
  the dimension is strictly below the low bound (side 0, the low side) or at or above the
  high bound (any other side value, the high side).
\<close>

theorem IsOutsideDomainBoundary_iff:
  "IsOutsideDomainBoundary_call f src ip \<in> {0, 1} \<and>
   ((IsOutsideDomainBoundary_call f src ip = 1) =
      (if m_iside f = 0
       then pos (getSuperParticle src ip) (m_idim f)
              < IsOutsideDomainBoundary.m_plo f ! m_idim f
       else m_phi f ! m_idim f \<le> pos (getSuperParticle src ip) (m_idim f)))"
  by (simp add: IsOutsideDomainBoundary_call_def Let_def)

text \<open>
  In the small simulation the particle at \<open>x = -1\<close> is outside the low \<open>x\<close> face and the
  particle at \<open>x = 6\<close> is not; a particle at \<open>x = 10\<close>, on the high bound, is outside the
  high face.
\<close>

theorem IsOutsideDomainBoundary_iff_witness:
  "IsOutsideDomainBoundary_call ex_face ex_tile 0 = 1 \<and>
   IsOutsideDomainBoundary_call ex_face ex_tile 1 = 0 \<and>
   IsOutsideDomainBoundary_call (ex_face\<lparr>m_iside := 1\<rparr>) (ex_tile\<lparr>m_rdata := [[10]]\<rparr>) 0 = 1"
  using IsOutsideDomainBoundary_iff [of ex_face ex_tile 0]
    IsOutsideDomainBoundary_iff [of ex_face ex_tile 1]
    IsOutsideDomainBoundary_iff [of "ex_face\<lparr>m_iside := 1\<rparr>" "ex_tile\<lparr>m_rdata := [[10]]\<rparr>" 0]
  by (auto simp: ex_face_def ex_tile_def getSuperParticle_def pos_def)

section \<open>Gathering at a low domain face\<close>



section \<open>The copy and the timestamp\<close>



section \<open>The position stored at the embedded boundary\<close>



section \<open>Redistribution\<close>

text \<open>
  C3, as the code has it. \<open>redistribute\<close> calls \<open>Redistribute\<close> on every defined buffer with
  the last argument false, which the source comments "do not remove particles with
  negative ids". The call removes no particle: every buffer, defined or not, and every
  buffered particle, whatever its id, is as before.
\<close>

theorem redistribute_keeps_negative_ids:
  "Redistribute c 0 (- 1) 0 0 False = c \<and>
   redistribute pbb = pbb \<and>
   buffered_at (redistribute pbb) b i lev index = buffered_at pbb b i lev index \<and>
   isDefined (m_particle_containers (redistribute pbb) ! b ! i) =
     isDefined (m_particle_containers pbb ! b ! i)"
  by (simp add: redistribute_id Redistribute_def)

text \<open>
  After the gather of the small simulation the low \<open>x\<close> buffer holds a particle with id
  \<open>-1\<close>. \<open>redistribute\<close> does not leave the buffer with the particles of id 0 or more only:
  the particle is still there.
\<close>

theorem redistribute_removes_negative_ids_counterexample:
  "buffered_at ex_gathered 0 0 0 (0, 0) =
     [\<lparr>a_idcpu = \<lparr>idcpu_id = - 1, idcpu_cpu = 0\<rparr>, a_rdata = [- 1, 5, 5, 1, 2, 0, 0],
       a_runtime_rdata = [], a_runtime_idata = [3, 7]\<rparr>] \<and>
   buffered_at (redistribute ex_gathered) 0 0 0 (0, 0) \<noteq>
     filter (\<lambda>a. 0 \<le> idcpu_id (a_idcpu a)) (buffered_at ex_gathered 0 0 0 (0, 0))"
proof -
  have b: "0 < numBoundaries" by (simp add: numBoundaries_def)
  have i: "0 < numSpecies ex_pbb" by (simp add: ex_pbb_facts)
  note E = gatherParticles_effect(2) [OF ex_pbb_ok b i, of ex_warpx ex_lib ex_distance_to_eb 0 "(0, 0)"]
  have g: "buffered_at ex_gathered 0 0 0 (0, 0) =
     [\<lparr>a_idcpu = \<lparr>idcpu_id = - 1, idcpu_cpu = 0\<rparr>, a_rdata = [- 1, 5, 5, 1, 2, 0, 0],
       a_runtime_rdata = [], a_runtime_idata = [3, 7]\<rparr>]"
    unfolding ex_gathered_def E
    by (simp add: appended_def ex_pbb_facts buffered_at_def slot_buffered_def ex_pc_def
        AMREX_SPACEDIM_def ex_warpx_def GetParticles_def ex_tile_def particles_def
        numParticles_def attributes_def timestamped_def upt_rec)
  show ?thesis
    unfolding redistribute_id g by simp
qed

section \<open>Access to a buffer\<close>

text \<open>
  C6, as the code has it. \<open>getParticleBuffer\<close> fails with an assertion exactly when the pair
  of boundary and species is not active or its buffer is not defined, and returns the
  buffer exactly when the pair is active and the buffer defined. The pointer variant has
  no assertion: it returns the slot of the pair in every case.
\<close>

theorem getParticleBuffer_asserts:
  "((\<exists>msg. getParticleBuffer warpx pbb species_name boundary = Inl (AssertionFailed msg)) =
      (m_do_boundary_buffer pbb ! boundary ! getSpeciesID warpx species_name = 0 \<or>
       \<not> isDefined (m_particle_containers pbb ! boundary ! getSpeciesID warpx species_name))) \<and>
   ((getParticleBuffer warpx pbb species_name boundary = Inr c) =
      (m_do_boundary_buffer pbb ! boundary ! getSpeciesID warpx species_name \<noteq> 0 \<and>
       m_particle_containers pbb ! boundary ! getSpeciesID warpx species_name = Some c)) \<and>
   getParticleBufferPointer warpx pbb species_name boundary =
     Inr (m_particle_containers pbb ! boundary ! getSpeciesID warpx species_name)"
  by (auto simp: getParticleBuffer_def getParticleBufferPointer_def Let_def isDefined_def
      split: option.splits)

text \<open>
  Before any gather, \<open>getParticleBuffer\<close> fails at the high \<open>x\<close> face, which is not active,
  with the message that names the boundary, and at the low \<open>x\<close> face, which is active but
  not defined yet.
\<close>

theorem getParticleBuffer_asserts_witness:
  "getParticleBuffer ex_warpx ex_pbb ''electrons'' 1 =
     Inl (AssertionFailed ''Attempted to get particle buffer for boundary 1, which is not used!'') \<and>
   getParticleBuffer ex_warpx ex_pbb ''electrons'' 0 =
     Inl (AssertionFailed ''Tried to get a buffer that is not defined!'')"
  using getParticleBuffer_asserts [of ex_warpx ex_pbb "''electrons''" 1]
  by (simp add: getParticleBuffer_def Let_def ex_warpx_def ex_pbb_facts)

text \<open>
  The pointer variant called for the high \<open>x\<close> face, which is not active and not defined,
  does not fail: it returns the undefined slot.
\<close>

theorem getParticleBufferPointer_asserts_counterexample:
  "m_do_boundary_buffer ex_pbb ! 1 ! getSpeciesID ex_warpx ''electrons'' = 0 \<and>
   \<not> isDefined (m_particle_containers ex_pbb ! 1 ! getSpeciesID ex_warpx ''electrons'') \<and>
   getParticleBufferPointer ex_warpx ex_pbb ''electrons'' 1 = Inr None"
  by (simp add: getParticleBufferPointer_def Let_def ex_warpx_def ex_pbb_facts isDefined_def)

section \<open>The life of a buffer\<close>

text \<open>
  C7, as the code has it. Every slot is undefined after construction, in the first manager
  of the process and in a later one. Under the manager's invariant, a slot is defined
  after a call of \<open>gatherParticles\<close> exactly when it was defined before, or its pair is active and its boundary is the embedded boundary or a face of a
  dimension that is not periodic: the first such call defines the buffer, whether or not a
  particle matches. The call leaves in every tile of the buffer what it held before,
  followed by what it appends. \<open>clearParticles\<close> and \<open>redistribute\<close> leave a defined slot
  defined and an undefined slot undefined.
\<close>

theorem buffer_created_by_first_active_gather:
  assumes "pbb_ok pbb mypc" and "b < numBoundaries" and "i < numSpecies pbb"
  shows "m_particle_containers
       (fst (ParticleBoundaryBuffer_init False (m_species_names pbb) query)) ! b ! i = None \<and>
     list_all (list_all (\<lambda>slot. \<not> isDefined slot))
       (m_particle_containers (fst (ParticleBoundaryBuffer_init initialized names query))) \<and>
     isDefined (m_particle_containers (fst (gatherParticles warpx lib pbb mypc distance_to_eb)) ! b ! i) =
       (isDefined (m_particle_containers pbb ! b ! i) \<or>
        m_do_boundary_buffer pbb ! b ! i \<noteq> 0 \<and>
        (b = AMREX_SPACEDIM * 2 \<or> \<not> isPeriodic (Geom warpx 0) (b div 2))) \<and>
     (\<exists>new. buffered_at (fst (gatherParticles warpx lib pbb mypc distance_to_eb)) b i lev index =
             buffered_at pbb b i lev index @ new) \<and>
     isDefined (m_particle_containers (clearParticles pbb) ! b ! i) =
       isDefined (m_particle_containers pbb ! b ! i) \<and>
     isDefined (m_particle_containers (redistribute pbb) ! b ! i) =
       isDefined (m_particle_containers pbb ! b ! i)"
proof -
  have len: "b < length (m_particle_containers pbb)"
    and il: "i < length (m_particle_containers pbb ! b)"
    using pbb_okD(1,2) [OF assms(1)] assms(2,3) by simp_all
  have "i < numSpecies (fst (ParticleBoundaryBuffer_init False (m_species_names pbb) query))"
    using assms(3) by (simp add: numSpecies_def init_names)
  with assms(2) have init: "m_particle_containers
       (fst (ParticleBoundaryBuffer_init False (m_species_names pbb) query)) ! b ! i = None"
    by (rule init_undefined)
  note all = init_all_undefined [of initialized names query]
  have cl: "isDefined (m_particle_containers (clearParticles pbb) ! b ! i) =
       isDefined (m_particle_containers pbb ! b ! i)"
    unfolding clearParticles_slot [OF len il] by (simp add: isDefined_def)
  show ?thesis
    using init all cl gatherParticles_effect(3) [OF assms, of warpx lib distance_to_eb]
      gatherParticles_effect(2) [OF assms, of warpx lib distance_to_eb lev index]
    by (simp add: redistribute_id)
qed

theorem buffer_created_by_first_active_gather_witness:
  "pbb_ok ex_pbb [ex_pc] \<and> 0 < numBoundaries \<and> 0 < numSpecies ex_pbb \<and>
   \<not> isDefined (m_particle_containers ex_pbb ! 0 ! 0) \<and>
   isDefined (m_particle_containers
                (fst (gatherParticles ex_warpx ex_lib ex_pbb [ex_pc] ex_distance_to_eb)) ! 0 ! 0)"
proof -
  note ok = ex_pbb_ok
  have b: "0 < numBoundaries" by (simp add: numBoundaries_def)
  have i: "0 < numSpecies ex_pbb"
    by (simp add: ex_pbb_def ParticleBoundaryBuffer_init_def getSpeciesNames_def Let_def numSpecies_def)
  show ?thesis
    using ok b i buffer_created_by_first_active_gather [OF ok b i, of "\<lambda>s k. None" True "[]"
        ex_warpx ex_lib ex_distance_to_eb 0 "(0, 0)"]
    by (simp add: ex_pbb_facts isDefined_def ex_warpx_def AMREX_SPACEDIM_def)
qed

text \<open>
  With no live particle at all, no particle matches, and yet the call defines the buffer of
  the active low \<open>x\<close> face, which stays empty.
\<close>

theorem buffer_created_on_first_match_counterexample:
  "m_particles ex_empty_pc = [] \<and>
   \<not> isDefined (m_particle_containers ex_pbb ! 0 ! 0) \<and>
   isDefined (m_particle_containers
                (fst (gatherParticles ex_warpx ex_lib ex_pbb [ex_empty_pc] ex_distance_to_eb)) ! 0 ! 0) \<and>
   buffered_at (fst (gatherParticles ex_warpx ex_lib ex_pbb [ex_empty_pc] ex_distance_to_eb))
     0 0 0 (0, 0) = []"
proof -
  have ok: "pbb_ok ex_pbb [ex_empty_pc]"
    by (simp add: pbb_ok_def pbb_sizes_def ex_pbb_def ParticleBoundaryBuffer_init_def getSpeciesNames_def Let_def
      numBoundaries_def AMREX_SPACEDIM_def numSpecies_def source_ok_def ex_empty_pc_def
      slot_ok_def upt_rec list_all_iff boundary_names_def ex_query_def)
  have b: "0 < numBoundaries" by (simp add: numBoundaries_def)
  have i: "0 < numSpecies ex_pbb" by (simp add: ex_pbb_facts)
  show ?thesis
    using gatherParticles_effect(3) [OF ok b i, of ex_warpx ex_lib ex_distance_to_eb]
      gatherParticles_effect(2) [OF ok b i, of ex_warpx ex_lib ex_distance_to_eb 0 "(0, 0)"]
    by (simp add: ex_pbb_facts isDefined_def ex_warpx_def AMREX_SPACEDIM_def ex_empty_pc_def
        appended_def buffered_at_def slot_buffered_def)
qed

section \<open>Clearing\<close>

text \<open>
  C8. Clearing twice is clearing once. When the tables of the manager have their sizes and
  the boundary and the species index are in range, the count of the species at the
  boundary is 0 after \<open>clearParticles\<close>, for all boundaries or for this one, whatever the
  buffer held, and the slot is defined after the call exactly when it was before: the
  count of a cleared buffer is 0, not an error.
\<close>

theorem clearParticles_idempotent:
  "clearParticles (clearParticles pbb) = clearParticles pbb \<and>
   (pbb_sizes pbb \<longrightarrow> boundary < numBoundaries \<longrightarrow>
    getSpeciesID warpx species_name < numSpecies pbb \<longrightarrow>
      getNumParticlesInContainer warpx (clearParticles pbb) species_name boundary local = 0 \<and>
      getNumParticlesInContainer warpx (clearParticles_boundary boundary pbb) species_name
        boundary local = 0 \<and>
      isDefined (m_particle_containers (clearParticles pbb) ! boundary !
                   getSpeciesID warpx species_name) =
        isDefined (m_particle_containers pbb ! boundary ! getSpeciesID warpx species_name) \<and>
      isDefined (m_particle_containers (clearParticles_boundary boundary pbb) ! boundary !
                   getSpeciesID warpx species_name) =
        isDefined (m_particle_containers pbb ! boundary ! getSpeciesID warpx species_name))"
proof -
  let ?i = "getSpeciesID warpx species_name"
  have main: "getNumParticlesInContainer warpx (clearParticles pbb) species_name boundary local = 0 \<and>
      getNumParticlesInContainer warpx (clearParticles_boundary boundary pbb) species_name
        boundary local = 0 \<and>
      isDefined (m_particle_containers (clearParticles pbb) ! boundary ! ?i) =
        isDefined (m_particle_containers pbb ! boundary ! ?i) \<and>
      isDefined (m_particle_containers (clearParticles_boundary boundary pbb) ! boundary ! ?i) =
        isDefined (m_particle_containers pbb ! boundary ! ?i)"
    if sz: "pbb_sizes pbb" and b: "boundary < numBoundaries" and i: "?i < numSpecies pbb"
  proof -
    have len: "boundary < length (m_particle_containers pbb)"
      and il: "?i < length (m_particle_containers pbb ! boundary)"
      using sz b i by (simp_all add: pbb_sizes_def list_all_length)
    show ?thesis
      using b i
      by (cases "m_particle_containers pbb ! boundary ! ?i")
         (simp_all add: getNumParticlesInContainer_def Let_def clearParticles_slot [OF len il]
          clearParticles_boundary_eq boundary_map_slot [OF len il] isDefined_def
          clearParticles_container_def TotalNumberOfParticles_def static_cast_int_def)
  qed
  show ?thesis using main clearParticles_idem by simp
qed

text \<open>
  A manager whose low \<open>x\<close> buffer holds one particle: the count is 1, it is 0 after one and
  after two calls, and the buffer is still defined.
\<close>

theorem clearParticles_idempotent_witness:
  "pbb_sizes ex_filled \<and> 0 < numBoundaries \<and>
   getSpeciesID ex_warpx ''electrons'' < numSpecies ex_filled \<and>
   getNumParticlesInContainer ex_warpx ex_filled ''electrons'' 0 False = 1 \<and>
   getNumParticlesInContainer ex_warpx (clearParticles ex_filled) ''electrons'' 0 False = 0 \<and>
   getNumParticlesInContainer ex_warpx (clearParticles (clearParticles ex_filled))
     ''electrons'' 0 False = 0 \<and>
   isDefined (m_particle_containers (clearParticles ex_filled) ! 0 ! 0)"
proof -
  have sz: "pbb_sizes ex_filled"
    by (simp add: pbb_sizes_def ex_filled_def numBoundaries_def AMREX_SPACEDIM_def
        numSpecies_def)
  have b: "0 < numBoundaries" by (simp add: numBoundaries_def)
  have i: "getSpeciesID ex_warpx ''electrons'' < numSpecies ex_filled"
    by (simp add: ex_warpx_def ex_filled_def numSpecies_def)
  have n: "getNumParticlesInContainer ex_warpx ex_filled ''electrons'' 0 False = 1"
    by (simp add: getNumParticlesInContainer_def Let_def ex_warpx_def ex_filled_def
        TotalNumberOfParticles_def numParticles_def ex_buffer_tile_def static_cast_int_def)
  have d: "isDefined (m_particle_containers ex_filled ! 0 ! getSpeciesID ex_warpx ''electrons'')"
    by (simp add: isDefined_def ex_warpx_def ex_filled_def)
  have g: "getSpeciesID ex_warpx ''electrons'' = 0" by (simp add: ex_warpx_def)
  note T = clearParticles_idempotent [of ex_filled 0 ex_warpx "''electrons''" False]
  show ?thesis
    using sz b i n d T by (simp add: g)
qed

section \<open>The live particles\<close>

text \<open>
  C9. \<open>gatherParticles\<close> returns the live particles as it received them, and leaves the
  activation flags and the names of the manager as they were. Under the manager's
  invariant a defined buffer stays defined, and every buffer tile begins after the call
  with the particles it held before: the call only adds to the buffers.
\<close>

theorem gatherParticles_source_untouched:
  "snd (gatherParticles warpx lib pbb mypc distance_to_eb) = mypc \<and>
   m_do_boundary_buffer (fst (gatherParticles warpx lib pbb mypc distance_to_eb)) =
     m_do_boundary_buffer pbb \<and>
   m_do_any_boundary (fst (gatherParticles warpx lib pbb mypc distance_to_eb)) =
     m_do_any_boundary pbb \<and>
   m_boundary_names (fst (gatherParticles warpx lib pbb mypc distance_to_eb)) =
     m_boundary_names pbb \<and>
   m_species_names (fst (gatherParticles warpx lib pbb mypc distance_to_eb)) =
     m_species_names pbb \<and>
   (pbb_ok pbb mypc \<longrightarrow> b < numBoundaries \<longrightarrow> i < numSpecies pbb \<longrightarrow>
      (isDefined (m_particle_containers pbb ! b ! i) \<longrightarrow>
       isDefined (m_particle_containers
                    (fst (gatherParticles warpx lib pbb mypc distance_to_eb)) ! b ! i)) \<and>
      take (length (buffered_at pbb b i lev index))
        (buffered_at (fst (gatherParticles warpx lib pbb mypc distance_to_eb)) b i lev index) =
        buffered_at pbb b i lev index)"
proof -
  have s: "snd (gatherParticles warpx lib pbb mypc distance_to_eb) = mypc"
    by (simp add: gatherParticles_def Let_def)
  have g: "isDefined (m_particle_containers pbb ! b ! i) \<longrightarrow>
       isDefined (m_particle_containers
                    (fst (gatherParticles warpx lib pbb mypc distance_to_eb)) ! b ! i)"
    and t: "take (length (buffered_at pbb b i lev index))
        (buffered_at (fst (gatherParticles warpx lib pbb mypc distance_to_eb)) b i lev index) =
        buffered_at pbb b i lev index"
    if "pbb_ok pbb mypc" "b < numBoundaries" "i < numSpecies pbb"
    using gatherParticles_effect(3) [OF that, of warpx lib distance_to_eb]
      gatherParticles_effect(2) [OF that, of warpx lib distance_to_eb lev index]
    by simp_all
  show ?thesis using s g t by simp
qed

theorem gatherParticles_source_untouched_witness:
  "pbb_ok ex_filled [ex_pc] \<and> 0 < numBoundaries \<and> 0 < numSpecies ex_filled \<and>
   isDefined (m_particle_containers ex_filled ! 0 ! 0) \<and>
   snd (gatherParticles ex_warpx ex_lib ex_filled [ex_pc] ex_distance_to_eb) = [ex_pc] \<and>
   isDefined (m_particle_containers
     (fst (gatherParticles ex_warpx ex_lib ex_filled [ex_pc] ex_distance_to_eb)) ! 0 ! 0) \<and>
   take 1 (buffered_at (fst (gatherParticles ex_warpx ex_lib ex_filled [ex_pc] ex_distance_to_eb))
        0 0 0 (0, 0)) =
     [\<lparr>a_idcpu = \<lparr>idcpu_id = - 1, idcpu_cpu = 0\<rparr>, a_rdata = [- 1, 5, 5, 1, 2, 0, 0],
       a_runtime_rdata = [], a_runtime_idata = [3, 7]\<rparr>]"
proof -
  have b: "0 < numBoundaries" by (simp add: numBoundaries_def)
  have i: "0 < numSpecies ex_filled" by (simp add: ex_filled_def numSpecies_def)
  have d: "isDefined (m_particle_containers ex_filled ! 0 ! 0)"
    by (simp add: ex_filled_def isDefined_def)
  have o: "buffered_at ex_filled 0 0 0 (0, 0) =
     [\<lparr>a_idcpu = \<lparr>idcpu_id = - 1, idcpu_cpu = 0\<rparr>, a_rdata = [- 1, 5, 5, 1, 2, 0, 0],
       a_runtime_rdata = [], a_runtime_idata = [3, 7]\<rparr>]"
    by (simp add: buffered_at_def slot_buffered_def buffered_def ex_filled_def
        ex_buffer_tile_def particles_def attributes_def numParticles_def)
  show ?thesis
    using ex_filled_ok b i d gatherParticles_source_untouched [of ex_warpx ex_lib ex_filled "[ex_pc]"
        ex_distance_to_eb 0 0 0 "(0, 0)"]
    by (simp add: o)
qed

section \<open>The timestamp component\<close>




end
